theory Spec2Isabelle
  imports Main
begin

section \<open>The cleanup handlers of the add-ons\<close>

text \<open>
  Each of the three add-ons (\<open>ArgoCDCoreAddOn\<close>, \<open>ArgoCDAddOn\<close>, \<open>ArgoRolloutsAddOn\<close>)
  ships an inline Python function \<open>handler(event, context)\<close> that CloudFormation invokes
  for the add-on's cleanup custom resource. The handler reads two keys of the event,
  runs external commands with \<open>subprocess.check_call\<close>, writes log records and reports
  once through \<open>cfnresponse.send\<close>.

  CloudFormation's request carries \<open>RequestType\<close> and \<open>ResourceProperties\<close> on every
  delivery, so the event is a record with these two fields. The properties are a
  string-keyed map; a key the handler reads may be missing from it, which raises
  \<open>KeyError\<close>. The result of an invocation is the response it sends, the commands it
  issued and the records it logged.
\<close>

datatype addon = ArgoCDCoreAddOn | ArgoCDAddOn | ArgoRolloutsAddOn

text \<open>
  The exceptions the handler can see. A missing dictionary key raises \<open>KeyError\<close>;
  \<open>check_call\<close> raises \<open>CalledProcessError\<close> when the command ran and exited with a
  non-zero status, and some other exception (\<open>FileNotFoundError\<close>, \<open>PermissionError\<close>,
  ...) when the command could not be run at all. \<open>CalledProcessError\<close> and
  \<open>OtherException\<close> carry the text Python's \<open>str(e)\<close> gives.
\<close>

datatype exn = KeyError string | CalledProcessError string | OtherException string

fun str :: "exn \<Rightarrow> string" where
  "str (KeyError k) = CHR 0x27 # k @ [CHR 0x27]"
| "str (CalledProcessError m) = m"
| "str (OtherException m) = m"

datatype outcome = Returned | Raised exn

record event =
  RequestType :: string
  ResourceProperties :: "string \<rightharpoonup> string"

text \<open>
  What the Lambda runtime supplies to one invocation: the outcome of each external
  command, by its argument vector (the handler issues every command at most once per
  invocation), and the text Python prints for the event dictionary.
\<close>

record runtime =
  check_call :: "string list \<Rightarrow> outcome"
  str_event :: "event \<Rightarrow> string"

datatype level = INFO | WARNING | ERROR

datatype status = SUCCESS | FAILED

record invocation =
  calls :: "string list list"
  log :: "(level \<times> string) list"

record response =
  Status :: status
  Data :: "(string \<times> string) list"

record result =
  sent :: response
  issued :: "string list list"
  logged :: "(level \<times> string) list"

definition logger :: "level \<Rightarrow> string \<Rightarrow> invocation \<Rightarrow> invocation" where
  "logger l m r = r\<lparr>log := log r @ [(l, m)]\<rparr>"

definition issue :: "string list \<Rightarrow> invocation \<Rightarrow> invocation" where
  "issue argv r = r\<lparr>calls := calls r @ [argv]\<rparr>"

subsection \<open>The external commands\<close>

definition update_kubeconfig :: "string \<Rightarrow> string \<Rightarrow> string list" where
  "update_kubeconfig cluster_name region =
     [''aws'', ''eks'', ''update-kubeconfig'', ''--name'', cluster_name, ''--region'', region]"

definition helm_uninstall :: "string \<Rightarrow> string \<Rightarrow> string list" where
  "helm_uninstall release_name namespace = [''helm'', ''uninstall'', release_name, ''-n'', namespace]"

definition delete_all :: "string \<Rightarrow> string list" where
  "delete_all namespace = [''kubectl'', ''delete'', ''all'', ''--all'', ''-n'', namespace]"

definition delete_crd :: "string list" where
  "delete_crd = [''kubectl'', ''delete'', ''crd'', ''-l'', ''app.kubernetes.io/part-of=argocd'']"

definition delete_namespace :: "string \<Rightarrow> string list" where
  "delete_namespace namespace = [''kubectl'', ''delete'', ''namespace'', namespace, ''--ignore-not-found'']"

subsection \<open>The statements of the handler\<close>

text \<open>
  A block of statements maps the invocation so far to the invocation after it, with the
  exception that left the block, if any. \<open>and_then\<close> is sequential composition: nothing
  after a raised exception runs.
\<close>

type_synonym block = "invocation \<Rightarrow> exn option \<times> invocation"

definition and_then :: "exn option \<times> invocation \<Rightarrow> block \<Rightarrow> exn option \<times> invocation" where
  "and_then x f = (case x of (None, r) \<Rightarrow> f r | (Some e, r) \<Rightarrow> (Some e, r))"

text \<open>\<open>subprocess.check_call(argv)\<close> outside any inner \<open>try\<close>: every exception leaves the block.\<close>

definition unguarded :: "runtime \<Rightarrow> string list \<Rightarrow> block" where
  "unguarded rt argv r =
     (case check_call rt argv of
        Returned \<Rightarrow> (None, issue argv r)
      | Raised e \<Rightarrow> (Some e, issue argv r))"

text \<open>
  The per-step block
  \<^verbatim>\<open>try: logger.info(starting); subprocess.check_call(argv); logger.info(finished)\<close>
  \<^verbatim>\<open>except subprocess.CalledProcessError as e: logger.warning(f"{warn}{str(e)}")\<close>
\<close>

definition guarded :: "runtime \<Rightarrow> string \<Rightarrow> string list \<Rightarrow> string \<Rightarrow> string \<Rightarrow> block" where
  "guarded rt starting argv finished warn r =
     (let r1 = issue argv (logger INFO starting r) in
      case check_call rt argv of
        Returned \<Rightarrow> (None, logger INFO finished r1)
      | Raised e \<Rightarrow>
          (case e of
             CalledProcessError m \<Rightarrow> (None, logger WARNING (warn @ str e) r1)
           | _ \<Rightarrow> (Some e, r1)))"

text \<open>The \<open>Delete\<close> branch of \<open>ArgoCDCoreAddOn\<close>'s handler.\<close>

definition argocdcore_delete :: "runtime \<Rightarrow> (string \<rightharpoonup> string) \<Rightarrow> block" where
  "argocdcore_delete rt properties r =
     (case properties ''clusterName'' of None \<Rightarrow> (Some (KeyError ''clusterName''), r) | Some cluster_name \<Rightarrow>
     (case properties ''region'' of None \<Rightarrow> (Some (KeyError ''region''), r) | Some region \<Rightarrow>
     (case properties ''namespace'' of None \<Rightarrow> (Some (KeyError ''namespace''), r) | Some namespace \<Rightarrow>
        and_then (and_then (and_then (and_then
          (unguarded rt (update_kubeconfig cluster_name region)
             (logger INFO (''Starting ArgoCDCore cleanup in namespace '' @ namespace) r))
          (guarded rt (''Deleting ArgoCD resources in namespace '' @ namespace)
             (delete_all namespace) ''Resources deleted successfully'' ''Error deleting resources: ''))
          (guarded rt ''Deleting ArgoCD CRDs''
             delete_crd ''CRDs deleted successfully'' ''Error deleting CRDs: ''))
          (guarded rt (''Deleting namespace '' @ namespace)
             (delete_namespace namespace) ''Namespace deleted successfully'' ''Error deleting namespace: ''))
          (\<lambda>r. (None, logger INFO ''ArgoCDCore cleanup completed'' r)))))"

text \<open>
  The \<open>Delete\<close> branch of the two Helm add-ons' handlers, which differ in the product
  name of their messages only (\<open>ArgoCD\<close>, \<open>Argo Rollouts\<close>).
\<close>

definition helm_delete :: "string \<Rightarrow> runtime \<Rightarrow> (string \<rightharpoonup> string) \<Rightarrow> block" where
  "helm_delete product rt properties r =
     (case properties ''clusterName'' of None \<Rightarrow> (Some (KeyError ''clusterName''), r) | Some cluster_name \<Rightarrow>
     (case properties ''region'' of None \<Rightarrow> (Some (KeyError ''region''), r) | Some region \<Rightarrow>
     (case properties ''namespace'' of None \<Rightarrow> (Some (KeyError ''namespace''), r) | Some namespace \<Rightarrow>
     (case properties ''releaseName'' of None \<Rightarrow> (Some (KeyError ''releaseName''), r) | Some release_name \<Rightarrow>
        and_then (and_then (and_then
          (unguarded rt (update_kubeconfig cluster_name region)
             (logger INFO (''Starting '' @ product @ '' uninstallation: '' @ release_name
                           @ '' in namespace '' @ namespace) r))
          (guarded rt (''Executing helm uninstall '' @ release_name @ '' -n '' @ namespace)
             (helm_uninstall release_name namespace) ''Helm uninstall completed successfully''
             ''Error uninstalling Helm chart: ''))
          (guarded rt (''Deleting namespace '' @ namespace)
             (delete_namespace namespace) ''Namespace deleted successfully'' ''Error deleting namespace: ''))
          (\<lambda>r. (None, logger INFO (product @ '' cleanup completed'') r))))))"

text \<open>
  The frame all three handlers share: the first log record, the outer \<open>try\<close>, the branch
  on the request type, and the single \<open>cfnresponse.send\<close> of either arm.
  \<open>cfnresponse.send\<close> is taken to return: the module reports its own errors instead of
  raising them.
\<close>

definition handler :: "block \<Rightarrow> string \<Rightarrow> runtime \<Rightarrow> event \<Rightarrow> result" where
  "handler delete_branch uninstalled rt ev =
     (let r0 = logger INFO (''Received event: '' @ str_event rt ev) \<lparr>calls = [], log = []\<rparr>;
          request_type = RequestType ev;
          (raised, r, response_data) =
            (if request_type = ''Delete''
             then (case delete_branch r0 of (x, r) \<Rightarrow> (x, r, [(''Message'', uninstalled)]))
             else (None,
                   logger INFO (''Operation '' @ request_type @ '' - no action required'') r0,
                   [(''Message'', ''Operation '' @ request_type @ '' processed'')]))
      in case raised of
           None \<Rightarrow>
             \<lparr>sent = \<lparr>Status = SUCCESS, Data = response_data\<rparr>, issued = calls r, logged = log r\<rparr>
         | Some e \<Rightarrow>
             \<lparr>sent = \<lparr>Status = FAILED, Data = [(''Error'', str e)]\<rparr>, issued = calls r,
              logged = log r @ [(ERROR, ''Error: '' @ str e)]\<rparr>)"

definition cleanup_handler :: "addon \<Rightarrow> runtime \<Rightarrow> event \<Rightarrow> result" where
  "cleanup_handler a rt ev =
     (case a of
        ArgoCDCoreAddOn \<Rightarrow>
          handler (argocdcore_delete rt (ResourceProperties ev)) ''ArgoCDCore uninstalled successfully'' rt ev
      | ArgoCDAddOn \<Rightarrow>
          handler (helm_delete ''ArgoCD'' rt (ResourceProperties ev)) ''ArgoCD uninstalled successfully'' rt ev
      | ArgoRolloutsAddOn \<Rightarrow>
          handler (helm_delete ''Argo Rollouts'' rt (ResourceProperties ev))
            ''Argo Rollouts uninstalled successfully'' rt ev)"

section \<open>The deployment of the add-ons\<close>

text \<open>
  \<open>deploy(clusterInfo)\<close> adds constructs under the cluster and declares dependencies
  between them with \<open>node.addDependency\<close>; CloudFormation later creates and deletes
  the resources. The model keeps what \<open>deploy\<close> writes: the constructs in the order in
  which they are made, and the dependency edges as pairs (dependent, dependency) of
  construct ids. A construct is identified by the id the source passes.
\<close>

datatype json =
    JString string
  | JNumber int
  | JObject "(string \<times> json) list"
  | JArray "json list"

datatype construct =
    KubernetesManifest string "json list"
      \<comment> \<open>id, manifest documents\<close>
  | HelmChart string string string string string string "json option"
      \<comment> \<open>id, repository, chart, release, namespace, version, values\<close>
  | LambdaFunction string string string addon nat "string list" "string list"
      \<comment> \<open>id, runtime, handler, inline code (the add-on's handler), timeout in minutes,
          actions and resources of the added policy statement\<close>
  | Provider string string
      \<comment> \<open>id, id of the onEvent handler\<close>
  | CustomResource string string "(string \<times> string) list" string
      \<comment> \<open>id, service token (the provider's id), properties, resource type\<close>

fun cid :: "construct \<Rightarrow> string" where
  "cid (KubernetesManifest i _) = i"
| "cid (HelmChart i _ _ _ _ _ _) = i"
| "cid (LambdaFunction i _ _ _ _ _ _) = i"
| "cid (Provider i _) = i"
| "cid (CustomResource i _ _ _) = i"

text \<open>
  The cluster as \<open>deploy\<close> sees it: \<open>cluster.clusterName\<close>, the region of its stack
  (\<open>cdk.Stack.of(cluster).region\<close>), the constructs under it and the declared
  dependencies. The framework refuses a second construct with an id its scope already
  holds; the model appends without that check.
\<close>

record cluster =
  clusterName :: string
  stack_region :: string
  children :: "construct list"
  dependencies :: "(string \<times> string) list"

text \<open>
  The optional properties of an add-on; \<open>ArgoCDCoreAddOnProps\<close> has \<open>namespace\<close>,
  \<open>version\<close> and \<open>cleanupEnabled\<close> only.
\<close>

record addon_props =
  props_namespace :: "string option"
  props_version :: "string option"
  props_values :: "json option"
  props_createNamespace :: "bool option"
  props_cleanupEnabled :: "bool option"

text \<open>
  \<open>add_child\<close> is a constructor call with the cluster as scope (\<open>new eks.KubernetesManifest\<close>,
  \<open>cluster.addHelmChart\<close>, \<open>new cdk.aws_lambda.Function\<close>, ...); \<open>addManifest\<close> and
  \<open>addDependency\<close> are the methods of the same names.
\<close>

definition add_child :: "construct \<Rightarrow> cluster \<Rightarrow> construct \<times> cluster" where
  "add_child x c = (x, c\<lparr>children := children c @ [x]\<rparr>)"

definition addManifest :: "string \<Rightarrow> json \<Rightarrow> cluster \<Rightarrow> construct \<times> cluster" where
  "addManifest i manifest c = add_child (KubernetesManifest i [manifest]) c"

definition addDependency :: "construct \<Rightarrow> construct \<Rightarrow> cluster \<Rightarrow> cluster" where
  "addDependency dependent dependency c =
     c\<lparr>dependencies := dependencies c @ [(cid dependent, cid dependency)]\<rparr>"

text \<open>\<open>Date.now().toString()\<close>: the clock's milliseconds in decimal.\<close>

definition digits :: string where
  "digits = ''0123456789''"

fun to_string :: "nat \<Rightarrow> string" where
  "to_string n =
     (if n < 10 then [digits ! n]
      else to_string (n div 10) @ [digits ! (n mod 10)])"

declare to_string.simps [simp del]

definition cleanupEnabled :: "addon_props \<Rightarrow> bool" where
  "cleanupEnabled props = (case props_cleanupEnabled props of None \<Rightarrow> True | Some b \<Rightarrow> b)"

subsection \<open>The cleanup mechanism\<close>

definition createCleanupProvider :: "addon \<Rightarrow> cluster \<Rightarrow> construct \<times> cluster" where
  "createCleanupProvider a c =
     (let (lambda_id, provider_id) =
            (case a of
               ArgoCDCoreAddOn \<Rightarrow> (''argocd-core-cleanup-lambda'', ''argocd-core-cleanup-provider'')
             | ArgoCDAddOn \<Rightarrow> (''argocd-cleanup-lambda'', ''argocd-cleanup-provider'')
             | ArgoRolloutsAddOn \<Rightarrow>
                 (''argo-rollouts-cleanup-lambda'', ''argo-rollouts-cleanup-provider''));
          (fn, c1) = add_child
            (LambdaFunction lambda_id ''python3.9'' ''index.handler'' a 15
               [''eks:DescribeCluster'', ''eks:ListClusters''] [''*'']) c
      in add_child (Provider provider_id (cid fn)) c1)"

definition setupCleanupMechanism ::
  "addon \<Rightarrow> nat \<Rightarrow> cluster \<Rightarrow> string \<Rightarrow> construct \<Rightarrow> construct \<times> cluster" where
  "setupCleanupMechanism a now c namespace resource =
     (let (provider, c1) = createCleanupProvider a c;
          timestamp = to_string now;
          (cleanupCR, c2) =
            (case a of
               ArgoCDCoreAddOn \<Rightarrow>
                 add_child (CustomResource ''argocd-core-cleanup-cr'' (cid provider)
                   [(''timestamp'', timestamp),
                    (''namespace'', namespace),
                    (''clusterName'', clusterName c),
                    (''region'', stack_region c)]
                   ''Custom::ArgoCDCoreCleanup'') c1
             | ArgoCDAddOn \<Rightarrow>
                 add_child (CustomResource ''argocd-cleanup-cr'' (cid provider)
                   [(''timestamp'', timestamp),
                    (''namespace'', namespace),
                    (''releaseName'', ''argocd''),
                    (''clusterName'', clusterName c),
                    (''region'', stack_region c)]
                   ''Custom::ArgoCDCleanup'') c1
             | ArgoRolloutsAddOn \<Rightarrow>
                 add_child (CustomResource ''argo-rollouts-cleanup-cr'' (cid provider)
                   [(''timestamp'', timestamp),
                    (''namespace'', namespace),
                    (''releaseName'', ''argo-rollouts''),
                    (''clusterName'', clusterName c),
                    (''region'', stack_region c)]
                   ''Custom::ArgoRolloutsCleanup'') c1)
      in (cleanupCR, addDependency cleanupCR resource c2))"

subsection \<open>\<open>ArgoCDCoreAddOn.deploy\<close>\<close>

definition argocdcore_deploy :: "addon_props \<Rightarrow> nat \<Rightarrow> cluster \<Rightarrow> construct \<times> cluster" where
  "argocdcore_deploy props now c =
     (let namespace = (case props_namespace props of None \<Rightarrow> ''argocd'' | Some n \<Rightarrow> n);
          version = (case props_version props of None \<Rightarrow> ''v3.0.6'' | Some v \<Rightarrow> v);
          (nsManifest, c1) = addManifest ''argocd-namespace''
            (JObject [(''apiVersion'', JString ''v1''),
                      (''kind'', JString ''Namespace''),
                      (''metadata'', JObject [(''name'', JString namespace)])]) c;
          manifestUrl = ''https://raw.githubusercontent.com/argoproj/argo-cd/refs/tags/'' @ version
                        @ ''/manifests/install.yaml'';
          (installerSA, c2) = addManifest ''argocd-installer-sa''
            (JObject [(''apiVersion'', JString ''v1''),
                      (''kind'', JString ''ServiceAccount''),
                      (''metadata'', JObject [(''name'', JString ''argocd-installer''),
                                              (''namespace'', JString namespace)])]) c1;
          (installerRoleBinding, c3) = addManifest ''argocd-installer-rb''
            (JObject [(''apiVersion'', JString ''rbac.authorization.k8s.io/v1''),
                      (''kind'', JString ''ClusterRoleBinding''),
                      (''metadata'', JObject [(''name'', JString ''argocd-installer-rb'')]),
                      (''subjects'', JArray [JObject [(''kind'', JString ''ServiceAccount''),
                                                      (''name'', JString ''argocd-installer''),
                                                      (''namespace'', JString namespace)]]),
                      (''roleRef'', JObject [(''kind'', JString ''ClusterRole''),
                                             (''name'', JString ''cluster-admin''),
                                             (''apiGroup'', JString ''rbac.authorization.k8s.io'')])]) c2;
          (applyArgoCD, c4) = add_child (KubernetesManifest ''argocd-apply''
            [JObject [(''apiVersion'', JString ''batch/v1''),
                      (''kind'', JString ''Job''),
                      (''metadata'', JObject [(''name'', JString ''argocd-install-job''),
                                              (''namespace'', JString namespace)]),
                      (''spec'', JObject
                         [(''template'', JObject [(''spec'', JObject
                             [(''serviceAccountName'', JString ''argocd-installer''),
                              (''containers'', JArray [JObject
                                 [(''name'', JString ''kubectl''),
                                  (''image'', JString ''bitnami/kubectl:latest''),
                                  (''command'', JArray [JString ''/bin/sh'', JString ''-c'']),
                                  (''args'', JArray [JString (''kubectl apply -f '' @ manifestUrl
                                                              @ '' -n '' @ namespace)])]]),
                              (''restartPolicy'', JString ''Never'')])]),
                          (''backoffLimit'', JNumber 0)])]]) c3;
          c5 = addDependency installerSA nsManifest c4;
          c6 = addDependency installerRoleBinding installerSA c5;
          c7 = addDependency applyArgoCD installerRoleBinding c6;
          c8 = (if cleanupEnabled props
                then snd (setupCleanupMechanism ArgoCDCoreAddOn now c7 namespace applyArgoCD)
                else c7)
      in (applyArgoCD, c8))"

subsection \<open>\<open>ArgoCDAddOn.deploy\<close> and \<open>ArgoRolloutsAddOn.deploy\<close>\<close>

definition argocd_deploy :: "addon_props \<Rightarrow> nat \<Rightarrow> cluster \<Rightarrow> construct \<times> cluster" where
  "argocd_deploy props now c =
     (let namespace = (case props_namespace props of None \<Rightarrow> ''argocd'' | Some n \<Rightarrow> n);
          version = (case props_version props of None \<Rightarrow> ''5.51.4'' | Some v \<Rightarrow> v);
          createNamespace = (case props_createNamespace props of None \<Rightarrow> True | Some b \<Rightarrow> b);
          (chart, c3) =
            (if createNamespace then
               (let (nsManifest, c1) = addManifest ''argocd-namespace''
                      (JObject [(''apiVersion'', JString ''v1''),
                                (''kind'', JString ''Namespace''),
                                (''metadata'', JObject [(''name'', JString namespace)])]) c;
                    (chart, c2) = add_child
                      (HelmChart ''argocd'' ''https://argoproj.github.io/argo-helm'' ''argo-cd''
                         ''argocd'' namespace version (props_values props)) c1
                in (chart, addDependency chart nsManifest c2))
             else
               add_child
                 (HelmChart ''argocd'' ''https://argoproj.github.io/argo-helm'' ''argo-cd''
                    ''argocd'' namespace version (props_values props)) c)
      in if cleanupEnabled props
         then setupCleanupMechanism ArgoCDAddOn now c3 namespace chart
         else (chart, c3))"

definition argorollouts_deploy :: "addon_props \<Rightarrow> nat \<Rightarrow> cluster \<Rightarrow> construct \<times> cluster" where
  "argorollouts_deploy props now c =
     (let namespace = (case props_namespace props of None \<Rightarrow> ''argo-rollouts'' | Some n \<Rightarrow> n);
          version = (case props_version props of None \<Rightarrow> ''2.32.0'' | Some v \<Rightarrow> v);
          createNamespace = (case props_createNamespace props of None \<Rightarrow> True | Some b \<Rightarrow> b);
          (chart, c3) =
            (if createNamespace then
               (let (nsManifest, c1) = addManifest ''argo-rollouts-namespace''
                      (JObject [(''apiVersion'', JString ''v1''),
                                (''kind'', JString ''Namespace''),
                                (''metadata'', JObject [(''name'', JString namespace)])]) c;
                    (chart, c2) = add_child
                      (HelmChart ''argo-rollouts'' ''https://argoproj.github.io/argo-helm''
                         ''argo-rollouts'' ''argo-rollouts'' namespace version (props_values props)) c1
                in (chart, addDependency chart nsManifest c2))
             else
               add_child
                 (HelmChart ''argo-rollouts'' ''https://argoproj.github.io/argo-helm''
                    ''argo-rollouts'' ''argo-rollouts'' namespace version (props_values props)) c)
      in if cleanupEnabled props
         then setupCleanupMechanism ArgoRolloutsAddOn now c3 namespace chart
         else (chart, c3))"

definition deploy :: "addon \<Rightarrow> addon_props \<Rightarrow> nat \<Rightarrow> cluster \<Rightarrow> construct \<times> cluster" where
  "deploy a =
     (case a of
        ArgoCDCoreAddOn \<Rightarrow> argocdcore_deploy
      | ArgoCDAddOn \<Rightarrow> argocd_deploy
      | ArgoRolloutsAddOn \<Rightarrow> argorollouts_deploy)"

section \<open>Vocabulary of the statements about the handlers\<close>

text \<open>
  A cleanup step is one per-step block of a \<open>Delete\<close> branch: its start record, its
  command, its success record and the prefix of its warning. \<open>cleanup_steps\<close> lists the
  steps of each handler in source order; lemma \<open>delete_branch_steps\<close> below proves that
  the \<open>Delete\<close> branches are exactly \<open>update-kubeconfig\<close> followed by these steps.
\<close>

type_synonym step = "string \<times> string list \<times> string \<times> string"

text \<open>
  \<open>exited\<close>: the command ran and exited, with status zero or not. \<open>escaping\<close>: the
  exception, if any, that a per-step \<open>except subprocess.CalledProcessError\<close> lets through.
\<close>

definition exited :: "outcome \<Rightarrow> bool" where
  "exited out =
     (case out of
        Returned \<Rightarrow> True
      | Raised e \<Rightarrow> (case e of CalledProcessError m \<Rightarrow> True | _ \<Rightarrow> False))"

definition escaping :: "outcome \<Rightarrow> exn option" where
  "escaping out =
     (case out of
        Returned \<Rightarrow> None
      | Raised e \<Rightarrow> (case e of CalledProcessError m \<Rightarrow> None | _ \<Rightarrow> Some e))"

text \<open>
  \<open>delete_event a ev c rg ns rel\<close>: \<open>ev\<close> is a \<open>Delete\<close> request whose properties hold what
  add-on \<open>a\<close>'s handler reads, with these values (\<open>ArgoCDCoreAddOn\<close> registers and reads no
  \<open>releaseName\<close>). \<open>registered\<close> says the same without naming the values.
\<close>

definition delete_event :: "addon \<Rightarrow> event \<Rightarrow> string \<Rightarrow> string \<Rightarrow> string \<Rightarrow> string \<Rightarrow> bool" where
  "delete_event a ev c rg ns rel \<longleftrightarrow>
     RequestType ev = ''Delete'' \<and>
     ResourceProperties ev ''clusterName'' = Some c \<and>
     ResourceProperties ev ''region'' = Some rg \<and>
     ResourceProperties ev ''namespace'' = Some ns \<and>
     (a = ArgoCDCoreAddOn \<or> ResourceProperties ev ''releaseName'' = Some rel)"

definition cleanup_steps :: "addon \<Rightarrow> string \<Rightarrow> string \<Rightarrow> step list" where
  "cleanup_steps a rel ns =
     (case a of
        ArgoCDCoreAddOn \<Rightarrow>
          [(''Deleting ArgoCD resources in namespace '' @ ns, delete_all ns,
            ''Resources deleted successfully'', ''Error deleting resources: ''),
           (''Deleting ArgoCD CRDs'', delete_crd,
            ''CRDs deleted successfully'', ''Error deleting CRDs: ''),
           (''Deleting namespace '' @ ns, delete_namespace ns,
            ''Namespace deleted successfully'', ''Error deleting namespace: '')]
      | _ \<Rightarrow>
          [(''Executing helm uninstall '' @ rel @ '' -n '' @ ns, helm_uninstall rel ns,
            ''Helm uninstall completed successfully'', ''Error uninstalling Helm chart: ''),
           (''Deleting namespace '' @ ns, delete_namespace ns,
            ''Namespace deleted successfully'', ''Error deleting namespace: '')])"

definition uninstalled :: "addon \<Rightarrow> string" where
  "uninstalled a =
     (case a of
        ArgoCDCoreAddOn \<Rightarrow> ''ArgoCDCore uninstalled successfully''
      | ArgoCDAddOn \<Rightarrow> ''ArgoCD uninstalled successfully''
      | ArgoRolloutsAddOn \<Rightarrow> ''Argo Rollouts uninstalled successfully'')"

fun command :: "step \<Rightarrow> string list" where
  "command (s, argv, f, w) = argv"

fun step_records :: "runtime \<Rightarrow> step \<Rightarrow> (level \<times> string) list" where
  "step_records rt (s, argv, f, w) =
     [(INFO, s), (case check_call rt argv of Returned \<Rightarrow> (INFO, f) | Raised e \<Rightarrow> (WARNING, w @ str e))]"

fun run_steps :: "runtime \<Rightarrow> step list \<Rightarrow> block" where
  "run_steps rt [] r = (None, r)"
| "run_steps rt ((s, argv, f, w) # ss) r = and_then (guarded rt s argv f w r) (run_steps rt ss)"

definition delete_branch :: "addon \<Rightarrow> runtime \<Rightarrow> (string \<rightharpoonup> string) \<Rightarrow> block" where
  "delete_branch a rt =
     (case a of
        ArgoCDCoreAddOn \<Rightarrow> argocdcore_delete rt
      | ArgoCDAddOn \<Rightarrow> helm_delete ''ArgoCD'' rt
      | ArgoRolloutsAddOn \<Rightarrow> helm_delete ''Argo Rollouts'' rt)"

definition starting :: "addon \<Rightarrow> string \<Rightarrow> string \<Rightarrow> string" where
  "starting a rel ns =
     (case a of
        ArgoCDCoreAddOn \<Rightarrow> ''Starting ArgoCDCore cleanup in namespace '' @ ns
      | ArgoCDAddOn \<Rightarrow> ''Starting ArgoCD uninstallation: '' @ rel @ '' in namespace '' @ ns
      | ArgoRolloutsAddOn \<Rightarrow>
          ''Starting Argo Rollouts uninstallation: '' @ rel @ '' in namespace '' @ ns)"

definition completed :: "addon \<Rightarrow> string" where
  "completed a =
     (case a of
        ArgoCDCoreAddOn \<Rightarrow> ''ArgoCDCore cleanup completed''
      | ArgoCDAddOn \<Rightarrow> ''ArgoCD cleanup completed''
      | ArgoRolloutsAddOn \<Rightarrow> ''Argo Rollouts cleanup completed'')"

fun first_escaping :: "runtime \<Rightarrow> step list \<Rightarrow> exn option" where
  "first_escaping rt [] = None"
| "first_escaping rt (st # ss) =
     (case escaping (check_call rt (command st)) of Some e \<Rightarrow> Some e | None \<Rightarrow> first_escaping rt ss)"

definition received :: "runtime \<Rightarrow> event \<Rightarrow> invocation" where
  "received rt ev = \<lparr>calls = [], log = [(INFO, ''Received event: '' @ str_event rt ev)]\<rparr>"



definition connected :: "addon \<Rightarrow> runtime \<Rightarrow> event \<Rightarrow> string \<Rightarrow> string \<Rightarrow> string \<Rightarrow> string \<Rightarrow> invocation" where
  "connected a rt ev c rg ns rel =
     \<lparr>calls = [update_kubeconfig c rg],
      log = [(INFO, ''Received event: '' @ str_event rt ev), (INFO, starting a rel ns)]\<rparr>"

text \<open>
  \<open>reached\<close>: the steps a \<open>Delete\<close> branch gets to, in order: the first step, and each
  step whose predecessor ran and exited. \<open>step_log\<close>: the records a step writes when it
  is reached: its start record, then its success record, or its warning when the
  command exits with a non-zero status, or nothing more when the command cannot be
  started. \<open>warned\<close>: the step's command exits with a non-zero status.
\<close>

fun reached :: "runtime \<Rightarrow> step list \<Rightarrow> step list" where
  "reached rt [] = []"
| "reached rt (st # ss) =
     st # (if exited (check_call rt (command st)) then reached rt ss else [])"

fun step_log :: "runtime \<Rightarrow> step \<Rightarrow> (level \<times> string) list" where
  "step_log rt (s, argv, f, w) =
     (INFO, s) #
     (case check_call rt argv of
        Returned \<Rightarrow> [(INFO, f)]
      | Raised e \<Rightarrow> (case e of CalledProcessError m \<Rightarrow> [(WARNING, w @ m)] | _ \<Rightarrow> []))"




subsection \<open>Concrete runtimes and events\<close>


definition rt_release_gone :: runtime where
  "rt_release_gone =
     \<lparr>check_call = (\<lambda>argv. if hd argv = ''helm''
                              then Raised (CalledProcessError ''Command returned non-zero exit status 1.'')
                              else Returned),
      str_event = (\<lambda>ev. ''{...}'')\<rparr>"


definition rt_mixed :: runtime where
  "rt_mixed =
     \<lparr>check_call = (\<lambda>argv. if hd argv = ''helm''
                              then Raised (CalledProcessError ''Command returned non-zero exit status 1.'')
                              else if hd argv = ''kubectl''
                              then Raised (OtherException ''[Errno 2] No such file or directory: kubectl'')
                              else Returned),
      str_event = (\<lambda>ev. ''{...}'')\<rparr>"

definition rt_no_helm :: runtime where
  "rt_no_helm =
     \<lparr>check_call = (\<lambda>argv. if hd argv = ''helm''
                              then Raised (OtherException ''[Errno 2] No such file or directory: helm'')
                              else Returned),
      str_event = (\<lambda>ev. ''{...}'')\<rparr>"

definition rt_crd_fails :: runtime where
  "rt_crd_fails =
     \<lparr>check_call = (\<lambda>argv. if argv = delete_crd
                              then Raised (CalledProcessError ''Command returned non-zero exit status 1.'')
                              else Returned),
      str_event = (\<lambda>ev. ''{...}'')\<rparr>"

definition rt_unreachable :: runtime where
  "rt_unreachable =
     \<lparr>check_call = (\<lambda>argv. Raised (CalledProcessError ''Command returned non-zero exit status 255.'')),
      str_event = (\<lambda>ev. ''{...}'')\<rparr>"

definition ev_delete :: event where
  "ev_delete =
     \<lparr>RequestType = ''Delete'',
      ResourceProperties =
        [''timestamp'' \<mapsto> ''1712345678901'', ''namespace'' \<mapsto> ''argocd'',
         ''releaseName'' \<mapsto> ''argocd'', ''clusterName'' \<mapsto> ''eks'', ''region'' \<mapsto> ''us-east-1'']\<rparr>"

definition ev_create :: event where
  "ev_create = ev_delete\<lparr>RequestType := ''Create''\<rparr>"

section \<open>Vocabulary of the statements about the deployment\<close>

text \<open>
  CloudFormation is not part of the repository; the statements below speak about every
  sequence of creations (of deletions) that honours the declared dependencies: a
  dependent is created only after its dependency, and a dependency is deleted only
  after its dependents. \<open>precedes seq x y\<close>: \<open>y\<close> occurs in \<open>seq\<close>, and \<open>x\<close> occurs before
  the first \<open>y\<close>.
\<close>

fun kind :: "construct \<Rightarrow> string" where
  "kind (KubernetesManifest i ms) =
     (case ms of
        [JObject fs] \<Rightarrow> (case map_of fs ''kind'' of Some (JString k) \<Rightarrow> k | _ \<Rightarrow> ''KubernetesManifest'')
      | _ \<Rightarrow> ''KubernetesManifest'')"
| "kind (HelmChart i _ _ _ _ _ _) = ''HelmChart''"
| "kind (LambdaFunction i _ _ _ _ _ _) = ''Function''"
| "kind (Provider i _) = ''Provider''"
| "kind (CustomResource i _ _ _) = ''CustomResource''"

fun is_primary :: "construct \<Rightarrow> bool" where
  "is_primary (KubernetesManifest _ _) = True"
| "is_primary (HelmChart _ _ _ _ _ _ _) = True"
| "is_primary _ = False"

fun properties :: "construct \<Rightarrow> (string \<times> string) list" where
  "properties (CustomResource _ _ ps _) = ps"
| "properties _ = []"

definition nonce :: "cluster \<Rightarrow> string option" where
  "nonce c = map_of (properties (last (children c))) ''timestamp''"

definition createNamespace :: "addon_props \<Rightarrow> bool" where
  "createNamespace props = (case props_createNamespace props of None \<Rightarrow> True | Some b \<Rightarrow> b)"

definition primary_id :: "addon \<Rightarrow> string" where
  "primary_id a =
     (case a of ArgoCDCoreAddOn \<Rightarrow> ''argocd-apply'' | ArgoCDAddOn \<Rightarrow> ''argocd''
      | ArgoRolloutsAddOn \<Rightarrow> ''argo-rollouts'')"

definition registration_id :: "addon \<Rightarrow> string" where
  "registration_id a =
     (case a of ArgoCDCoreAddOn \<Rightarrow> ''argocd-core-cleanup-cr'' | ArgoCDAddOn \<Rightarrow> ''argocd-cleanup-cr''
      | ArgoRolloutsAddOn \<Rightarrow> ''argo-rollouts-cleanup-cr'')"

definition namespace_id :: "addon \<Rightarrow> string" where
  "namespace_id a =
     (case a of ArgoRolloutsAddOn \<Rightarrow> ''argo-rollouts-namespace'' | _ \<Rightarrow> ''argocd-namespace'')"

definition precedes :: "string list \<Rightarrow> string \<Rightarrow> string \<Rightarrow> bool" where
  "precedes seq x y \<longleftrightarrow> y \<in> set seq \<and> x \<in> set (takeWhile (\<lambda>z. z \<noteq> y) seq)"

definition creation_order :: "(string \<times> string) list \<Rightarrow> string list \<Rightarrow> bool" where
  "creation_order deps seq \<longleftrightarrow> (\<forall>(a, b) \<in> set deps. a \<in> set seq \<longrightarrow> precedes seq b a)"

definition deletion_order :: "(string \<times> string) list \<Rightarrow> string list \<Rightarrow> bool" where
  "deletion_order deps seq \<longleftrightarrow> (\<forall>(a, b) \<in> set deps. b \<in> set seq \<longrightarrow> precedes seq a b)"

definition declared :: "cluster \<Rightarrow> cluster \<Rightarrow> (string \<times> string) list" where
  "declared c c' = map (\<lambda>x. (cid x, kind x)) (drop (length (children c)) (children c'))"

definition cluster0 :: cluster where
  "cluster0 = \<lparr>clusterName = ''eks'', stack_region = ''us-east-1'', children = [], dependencies = []\<rparr>"

definition props0 :: addon_props where
  "props0 = \<lparr>props_namespace = None, props_version = None, props_values = None,
             props_createNamespace = None, props_cleanupEnabled = None\<rparr>"

definition seq_core :: "string list" where
  "seq_core = [''argocd-namespace'', ''argocd-installer-sa'', ''argocd-core-cleanup-lambda'',
               ''argocd-installer-rb'', ''argocd-core-cleanup-provider'', ''argocd-apply'',
               ''argocd-core-cleanup-cr'']"

definition props_no_cleanup :: addon_props where
  "props_no_cleanup = props0\<lparr>props_cleanupEnabled := Some False\<rparr>"

definition props_gitops :: addon_props where
  "props_gitops = props0\<lparr>props_namespace := Some ''gitops''\<rparr>"

definition seq_argocd :: "string list" where
  "seq_argocd = [''argocd-namespace'', ''argocd-cleanup-lambda'', ''argocd'',
                 ''argocd-cleanup-provider'', ''argocd-cleanup-cr'']"

section \<open>The handlers, step by step\<close>

text \<open>
  The \<open>Delete\<close> branches as \<open>update-kubeconfig\<close> followed by the list of cleanup steps,
  and, by induction on that list, what the steps issue, log and let through.
\<close>

lemma and_then_assoc: "and_then (and_then x f) g = and_then x (\<lambda>r. and_then (f r) g)"
  by (auto simp: and_then_def split: prod.splits option.splits)

lemma and_then_None: "and_then (None, r) f = f r"
  by (simp add: and_then_def)

lemma cleanup_handler_frame:
  "cleanup_handler a rt ev = handler (delete_branch a rt (ResourceProperties ev)) (uninstalled a) rt ev"
  by (cases a) (simp_all add: cleanup_handler_def delete_branch_def uninstalled_def)

lemma delete_branch_steps:
  assumes "delete_event a ev c rg ns rel"
  shows "delete_branch a rt (ResourceProperties ev) r =
     and_then (unguarded rt (update_kubeconfig c rg) (logger INFO (starting a rel ns) r))
       (\<lambda>r. and_then (run_steps rt (cleanup_steps a rel ns) r)
          (\<lambda>r. (None, logger INFO (completed a) r)))"
  using assms
  by (cases a)
     (simp_all add: delete_event_def delete_branch_def argocdcore_delete_def helm_delete_def
        cleanup_steps_def starting_def completed_def and_then_assoc and_then_None)

lemma guarded_exited:
  "exited (check_call rt argv) \<Longrightarrow>
   guarded rt s argv f w r =
     (None, r\<lparr>calls := calls r @ [argv], log := log r @ step_records rt (s, argv, f, w)\<rparr>)"
  by (auto simp: guarded_def exited_def logger_def issue_def Let_def split: outcome.splits exn.splits)

lemma guarded_escaping:
  "escaping (check_call rt argv) = Some e \<Longrightarrow>
   guarded rt s argv f w r = (Some e, r\<lparr>calls := calls r @ [argv], log := log r @ [(INFO, s)]\<rparr>)"
  by (auto simp: guarded_def escaping_def logger_def issue_def Let_def split: outcome.splits exn.splits)

lemma escaping_None: "escaping out = None \<longleftrightarrow> exited out"
  by (auto simp: escaping_def exited_def split: outcome.splits exn.splits)

lemma escaping_Some: "escaping out = Some e \<longleftrightarrow> out = Raised e \<and> (\<forall>m. e \<noteq> CalledProcessError m)"
  by (auto simp: escaping_def split: outcome.splits exn.splits)

lemma run_steps_exited:
  "\<forall>st \<in> set ss. exited (check_call rt (command st)) \<Longrightarrow>
   run_steps rt ss r =
     (None, r\<lparr>calls := calls r @ map command ss, log := log r @ concat (map (step_records rt) ss)\<rparr>)"
proof (induction ss arbitrary: r)
  case Nil
  show ?case by simp
next
  case (Cons st ss)
  obtain s argv f w where st: "st = (s, argv, f, w)" by (cases st) auto
  from Cons.prems have "exited (check_call rt argv)" by (simp add: st)
  moreover from Cons.prems have "\<forall>st \<in> set ss. exited (check_call rt (command st))" by simp
  ultimately show ?case
    by (simp add: st guarded_exited and_then_def Cons.IH)
qed

lemma run_steps_escaping:
  "\<forall>st \<in> set pre. exited (check_call rt (command st)) \<Longrightarrow>
   escaping (check_call rt argv) = Some e \<Longrightarrow>
   run_steps rt (pre @ (s, argv, f, w) # post) r =
     (Some e, r\<lparr>calls := calls r @ map command pre @ [argv],
               log := log r @ concat (map (step_records rt) pre) @ [(INFO, s)]\<rparr>)"
proof (induction pre arbitrary: r)
  case Nil
  then show ?case by (simp add: guarded_escaping and_then_def)
next
  case (Cons st pre)
  obtain s' argv' f' w' where st: "st = (s', argv', f', w')" by (cases st) auto
  from Cons.prems have "exited (check_call rt argv')" by (simp add: st)
  moreover from Cons.prems have "\<forall>st \<in> set pre. exited (check_call rt (command st))" by simp
  ultimately show ?case using Cons.prems(2)
    by (simp add: st guarded_exited and_then_def Cons.IH)
qed

lemma run_steps_append_exited:
  "\<forall>st \<in> set pre. exited (check_call rt (command st)) \<Longrightarrow>
   run_steps rt (pre @ ss) r =
     run_steps rt ss (r\<lparr>calls := calls r @ map command pre,
                       log := log r @ concat (map (step_records rt) pre)\<rparr>)"
proof (induction pre arbitrary: r)
  case Nil
  show ?case by simp
next
  case (Cons st pre)
  obtain s argv f w where st: "st = (s, argv, f, w)" by (cases st) auto
  from Cons.prems have "exited (check_call rt argv)" by (simp add: st)
  moreover from Cons.prems have "\<forall>st \<in> set pre. exited (check_call rt (command st))" by simp
  ultimately show ?case
    by (simp add: st guarded_exited and_then_def Cons.IH)
qed

lemma fst_run_steps: "fst (run_steps rt ss r) = first_escaping rt ss"
proof (induction ss arbitrary: r)
  case Nil
  show ?case by simp
next
  case (Cons st ss)
  obtain s argv f w where st: "st = (s, argv, f, w)" by (cases st) auto
  show ?case
  proof (cases "escaping (check_call rt argv)")
    case None
    then have "exited (check_call rt argv)" by (simp add: escaping_None)
    then show ?thesis using None by (simp add: st guarded_exited and_then_def Cons.IH)
  next
    case (Some e)
    then show ?thesis by (simp add: st guarded_escaping and_then_def)
  qed
qed

lemma first_escaping_None:
  "first_escaping rt ss = None \<longleftrightarrow> (\<forall>st \<in> set ss. exited (check_call rt (command st)))"
  by (induction ss) (auto simp flip: escaping_None split: option.splits)


lemma handler_result:
  "handler blk msg rt ev =
     (if RequestType ev = ''Delete'' then
        (case blk (received rt ev) of
           (None, r) \<Rightarrow> \<lparr>sent = \<lparr>Status = SUCCESS, Data = [(''Message'', msg)]\<rparr>,
                          issued = calls r, logged = log r\<rparr>
         | (Some e, r) \<Rightarrow> \<lparr>sent = \<lparr>Status = FAILED, Data = [(''Error'', str e)]\<rparr>,
                            issued = calls r, logged = log r @ [(ERROR, ''Error: '' @ str e)]\<rparr>)
      else \<lparr>sent = \<lparr>Status = SUCCESS,
                     Data = [(''Message'', ''Operation '' @ RequestType ev @ '' processed'')]\<rparr>,
            issued = [],
            logged = [(INFO, ''Received event: '' @ str_event rt ev),
                      (INFO, ''Operation '' @ RequestType ev @ '' - no action required'')]\<rparr>)"
  by (simp add: handler_def received_def logger_def Let_def split: prod.splits option.splits)

lemma delete_connect_failed:
  assumes "delete_event a ev c rg ns rel"
      and "check_call rt (update_kubeconfig c rg) = Raised e"
  shows "cleanup_handler a rt ev =
     \<lparr>sent = \<lparr>Status = FAILED, Data = [(''Error'', str e)]\<rparr>,
      issued = [update_kubeconfig c rg],
      logged = [(INFO, ''Received event: '' @ str_event rt ev), (INFO, starting a rel ns),
                (ERROR, ''Error: '' @ str e)]\<rparr>"
proof -
  have "RequestType ev = ''Delete''" using assms(1) by (simp add: delete_event_def)
  then show ?thesis
    using assms(2)
    by (simp add: cleanup_handler_frame handler_result delete_branch_steps[OF assms(1)]
          unguarded_def and_then_def received_def logger_def issue_def)
qed

lemma delete_all_exited:
  assumes "delete_event a ev c rg ns rel"
      and "check_call rt (update_kubeconfig c rg) = Returned"
      and "\<forall>st \<in> set (cleanup_steps a rel ns). exited (check_call rt (command st))"
  shows "cleanup_handler a rt ev =
     \<lparr>sent = \<lparr>Status = SUCCESS, Data = [(''Message'', uninstalled a)]\<rparr>,
      issued = update_kubeconfig c rg # map command (cleanup_steps a rel ns),
      logged = [(INFO, ''Received event: '' @ str_event rt ev), (INFO, starting a rel ns)]
               @ concat (map (step_records rt) (cleanup_steps a rel ns))
               @ [(INFO, completed a)]\<rparr>"
proof -
  have "RequestType ev = ''Delete''" using assms(1) by (simp add: delete_event_def)
  then show ?thesis
    using assms(2)
    by (simp add: cleanup_handler_frame handler_result delete_branch_steps[OF assms(1)]
          run_steps_exited[OF assms(3)]
          unguarded_def and_then_def received_def logger_def issue_def)
qed

lemma delete_escaped:
  assumes "delete_event a ev c rg ns rel"
      and "check_call rt (update_kubeconfig c rg) = Returned"
      and "cleanup_steps a rel ns = pre @ (s, argv, f, w) # post"
      and "\<forall>st \<in> set pre. exited (check_call rt (command st))"
      and "escaping (check_call rt argv) = Some e"
  shows "cleanup_handler a rt ev =
     \<lparr>sent = \<lparr>Status = FAILED, Data = [(''Error'', str e)]\<rparr>,
      issued = update_kubeconfig c rg # map command pre @ [argv],
      logged = [(INFO, ''Received event: '' @ str_event rt ev), (INFO, starting a rel ns)]
               @ concat (map (step_records rt) pre)
               @ [(INFO, s), (ERROR, ''Error: '' @ str e)]\<rparr>"
proof -
  have "RequestType ev = ''Delete''" using assms(1) by (simp add: delete_event_def)
  then show ?thesis
    using assms(2)
    by (simp add: cleanup_handler_frame handler_result delete_branch_steps[OF assms(1)]
          assms(3) run_steps_escaping[OF assms(4) assms(5)]
          unguarded_def and_then_def received_def logger_def issue_def)
qed

lemma delete_status:
  assumes "delete_event a ev c rg ns rel"
  shows "sent (cleanup_handler a rt ev) =
     (case check_call rt (update_kubeconfig c rg) of
        Raised e \<Rightarrow> \<lparr>Status = FAILED, Data = [(''Error'', str e)]\<rparr>
      | Returned \<Rightarrow>
          (case first_escaping rt (cleanup_steps a rel ns) of
             Some e \<Rightarrow> \<lparr>Status = FAILED, Data = [(''Error'', str e)]\<rparr>
           | None \<Rightarrow> \<lparr>Status = SUCCESS, Data = [(''Message'', uninstalled a)]\<rparr>))"
proof -
  have d: "RequestType ev = ''Delete''" using assms(1) by (simp add: delete_event_def)
  show ?thesis
  proof (cases "check_call rt (update_kubeconfig c rg)")
    case Returned
    let ?r = "issue (update_kubeconfig c rg) (logger INFO (starting a rel ns) (received rt ev))"
    have "fst (run_steps rt (cleanup_steps a rel ns) ?r) = first_escaping rt (cleanup_steps a rel ns)"
      by (rule fst_run_steps)
    then show ?thesis using Returned d
      by (cases "run_steps rt (cleanup_steps a rel ns) ?r")
         (auto simp: cleanup_handler_frame handler_result delete_branch_steps[OF assms(1)]
            unguarded_def and_then_def split: option.splits)
  next
    case (Raised e)
    then show ?thesis by (simp add: delete_connect_failed[OF assms(1) Raised])
  qed
qed

lemmas cmd_defs = update_kubeconfig_def helm_uninstall_def delete_all_def delete_crd_def delete_namespace_def

lemma step_record_logged:
  "st \<in> set ss \<Longrightarrow> x \<in> set (step_records rt st) \<Longrightarrow>
   x \<in> set (concat (map (step_records rt) ss))"
  by auto

lemma logger_calls: "calls (logger l m r) = calls r"
  by (simp add: logger_def)

lemma logger_log: "log (logger l m r) = log r @ [(l, m)]"
  by (simp add: logger_def)

lemma guarded_calls: "calls (snd (guarded rt s argv f w r)) = calls r @ [argv]"
  by (auto simp: guarded_def logger_def issue_def Let_def split: outcome.splits exn.splits)

lemma guarded_log: "set (log r) \<subseteq> set (log (snd (guarded rt s argv f w r)))"
  by (auto simp: guarded_def logger_def issue_def Let_def split: outcome.splits exn.splits)

lemma run_steps_calls:
  "\<exists>k. k \<le> length ss \<and> (ss \<noteq> [] \<longrightarrow> 0 < k) \<and>
       calls (snd (run_steps rt ss r)) = calls r @ map command (take k ss)"
proof (induction ss arbitrary: r)
  case Nil
  show ?case by simp
next
  case (Cons st ss)
  obtain s argv f w where st: "st = (s, argv, f, w)" by (cases st) auto
  obtain x r' where g: "guarded rt s argv f w r = (x, r')" by (cases "guarded rt s argv f w r")
  have c: "calls r' = calls r @ [argv]" using guarded_calls[of rt s argv f w r] g by simp
  show ?case
  proof (cases x)
    case None
    from Cons.IH[of r'] obtain k where k: "k \<le> length ss"
      "calls (snd (run_steps rt ss r')) = calls r' @ map command (take k ss)" by blast
    then have "calls (snd (run_steps rt (st # ss) r)) = calls r @ map command (take (Suc k) (st # ss))"
      using None by (simp add: st g c and_then_def)
    with k(1) show ?thesis by (intro exI[of _ "Suc k"]) simp
  next
    case (Some e)
    then have "calls (snd (run_steps rt (st # ss) r)) = calls r @ map command (take (Suc 0) (st # ss))"
      by (simp add: st g c and_then_def)
    then show ?thesis by (intro exI[of _ "Suc 0"]) simp
  qed
qed

lemma run_steps_log: "set (log r) \<subseteq> set (log (snd (run_steps rt ss r)))"
proof (induction ss arbitrary: r)
  case Nil
  show ?case by simp
next
  case (Cons st ss)
  obtain s argv f w where st: "st = (s, argv, f, w)" by (cases st) auto
  obtain x r' where g: "guarded rt s argv f w r = (x, r')" by (cases "guarded rt s argv f w r")
  have l: "set (log r) \<subseteq> set (log r')" using guarded_log[of r rt s argv f w] g by simp
  show ?case
  proof (cases x)
    case None
    with l Cons.IH[of r'] show ?thesis by (auto simp: st g and_then_def)
  next
    case (Some e)
    with l show ?thesis by (simp add: st g and_then_def)
  qed
qed

lemma delete_connected:
  assumes "delete_event a ev c rg ns rel"
      and "check_call rt (update_kubeconfig c rg) = Returned"
  shows "issued (cleanup_handler a rt ev) =
           calls (snd (run_steps rt (cleanup_steps a rel ns) (connected a rt ev c rg ns rel))) \<and>
         set (log (snd (run_steps rt (cleanup_steps a rel ns) (connected a rt ev c rg ns rel))))
           \<subseteq> set (logged (cleanup_handler a rt ev))"
proof -
  have d: "RequestType ev = ''Delete''" using assms(1) by (simp add: delete_event_def)
  have r: "issue (update_kubeconfig c rg) (logger INFO (starting a rel ns) (received rt ev)) =
             connected a rt ev c rg ns rel"
    by (simp add: connected_def received_def issue_def logger_def)
  obtain x r' where s: "run_steps rt (cleanup_steps a rel ns) (connected a rt ev c rg ns rel) = (x, r')"
    by (cases "run_steps rt (cleanup_steps a rel ns) (connected a rt ev c rg ns rel)")
  show ?thesis
    using d assms(2)
    by (cases x)
       (auto simp: cleanup_handler_frame handler_result delete_branch_steps[OF assms(1)]
          unguarded_def and_then_def r s logger_calls logger_log)
qed



text \<open>
  The commands of one invocation are pairwise distinct, so giving the runtime's answers
  by argument vector loses nothing.
\<close>

lemma commands_distinct:
  "distinct (update_kubeconfig c rg # map command (cleanup_steps a rel ns))"
  by (cases a) (simp_all add: cleanup_steps_def cmd_defs)



text \<open>
  The same without assuming that every step exits: the steps reached, what they log, and
  the terminal state.
\<close>

lemma step_log_exited:
  "exited (check_call rt argv) \<Longrightarrow> step_log rt (s, argv, f, w) = step_records rt (s, argv, f, w)"
  by (auto simp: exited_def split: outcome.splits exn.splits)

lemma step_log_escaping:
  "escaping (check_call rt argv) = Some e \<Longrightarrow> step_log rt (s, argv, f, w) = [(INFO, s)]"
  by (auto simp: escaping_def split: outcome.splits exn.splits)

lemma run_steps_reached:
  "run_steps rt ss r =
     (first_escaping rt ss,
      r\<lparr>calls := calls r @ map command (reached rt ss),
        log := log r @ concat (map (step_log rt) (reached rt ss))\<rparr>)"
proof (induction ss arbitrary: r)
  case Nil
  show ?case by simp
next
  case (Cons st ss)
  obtain s argv f w where st: "st = (s, argv, f, w)" by (cases st) auto
  show ?case
  proof (cases "escaping (check_call rt argv)")
    case None
    then have x: "exited (check_call rt argv)" by (simp add: escaping_None)
    with None show ?thesis
      by (simp add: st guarded_exited step_log_exited[OF x] and_then_def Cons.IH del: step_log.simps step_records.simps)
  next
    case (Some e)
    then have "\<not> exited (check_call rt argv)" by (simp flip: escaping_None)
    with Some show ?thesis
      by (simp add: st guarded_escaping step_log_escaping[OF Some] and_then_def del: step_log.simps)
  qed
qed

lemma delete_result:
  assumes "delete_event a ev c rg ns rel"
      and "check_call rt (update_kubeconfig c rg) = Returned"
  shows "cleanup_handler a rt ev =
     \<lparr>sent = (case first_escaping rt (cleanup_steps a rel ns) of
                None \<Rightarrow> \<lparr>Status = SUCCESS, Data = [(''Message'', uninstalled a)]\<rparr>
              | Some e \<Rightarrow> \<lparr>Status = FAILED, Data = [(''Error'', str e)]\<rparr>),
      issued = update_kubeconfig c rg # map command (reached rt (cleanup_steps a rel ns)),
      logged = [(INFO, ''Received event: '' @ str_event rt ev), (INFO, starting a rel ns)]
               @ concat (map (step_log rt) (reached rt (cleanup_steps a rel ns)))
               @ (case first_escaping rt (cleanup_steps a rel ns) of
                    None \<Rightarrow> [(INFO, completed a)]
                  | Some e \<Rightarrow> [(ERROR, ''Error: '' @ str e)])\<rparr>"
proof -
  have "RequestType ev = ''Delete''" using assms(1) by (simp add: delete_event_def)
  then show ?thesis
    using assms(2)
    by (cases "first_escaping rt (cleanup_steps a rel ns)")
       (simp_all add: cleanup_handler_frame handler_result delete_branch_steps[OF assms(1)]
          run_steps_reached unguarded_def and_then_def received_def logger_def issue_def)
qed

lemma reached_subset: "set (reached rt ss) \<subseteq> set ss"
  by (induction ss) auto

lemma reached_append:
  "reached rt (pre @ ss) =
     (if \<forall>st \<in> set pre. exited (check_call rt (command st)) then pre @ reached rt ss
      else reached rt pre)"
  by (induction pre) auto

lemma reached_first: "set (take 1 ss) \<subseteq> set (reached rt ss)"
  by (cases ss) auto





section \<open>The graph \<open>deploy\<close> builds\<close>

text \<open>
  What each \<open>deploy\<close> adds to the cluster: the constructs, in order, the dependency
  edges, and the construct it returns.
\<close>

lemmas deploy_defs = argocdcore_deploy_def argocd_deploy_def argorollouts_deploy_def
  setupCleanupMechanism_def createCleanupProvider_def add_child_def addManifest_def
  addDependency_def cleanupEnabled_def createNamespace_def Let_def

lemma core_dependencies:
  "dependencies (snd (argocdcore_deploy props now c)) =
     dependencies c @
     [(''argocd-installer-sa'', ''argocd-namespace''),
      (''argocd-installer-rb'', ''argocd-installer-sa''),
      (''argocd-apply'', ''argocd-installer-rb'')] @
     (if cleanupEnabled props then [(''argocd-core-cleanup-cr'', ''argocd-apply'')] else [])"
  by (simp add: deploy_defs split: option.splits)

lemma argocd_dependencies:
  "dependencies (snd (argocd_deploy props now c)) =
     dependencies c @
     (if createNamespace props then [(''argocd'', ''argocd-namespace'')] else []) @
     (if cleanupEnabled props then [(''argocd-cleanup-cr'', ''argocd'')] else [])"
  by (simp add: deploy_defs split: option.splits)

lemma argorollouts_dependencies:
  "dependencies (snd (argorollouts_deploy props now c)) =
     dependencies c @
     (if createNamespace props then [(''argo-rollouts'', ''argo-rollouts-namespace'')] else []) @
     (if cleanupEnabled props then [(''argo-rollouts-cleanup-cr'', ''argo-rollouts'')] else [])"
  by (simp add: deploy_defs split: option.splits)

lemma core_declared:
  "declared c (snd (argocdcore_deploy props now c)) =
     [(''argocd-namespace'', ''Namespace''),
      (''argocd-installer-sa'', ''ServiceAccount''),
      (''argocd-installer-rb'', ''ClusterRoleBinding''),
      (''argocd-apply'', ''Job'')] @
     (if cleanupEnabled props
      then [(''argocd-core-cleanup-lambda'', ''Function''),
            (''argocd-core-cleanup-provider'', ''Provider''),
            (''argocd-core-cleanup-cr'', ''CustomResource'')]
      else [])"
  by (simp add: declared_def deploy_defs split: option.splits)

lemma argocd_declared:
  "declared c (snd (argocd_deploy props now c)) =
     (if createNamespace props then [(''argocd-namespace'', ''Namespace'')] else []) @
     [(''argocd'', ''HelmChart'')] @
     (if cleanupEnabled props
      then [(''argocd-cleanup-lambda'', ''Function''),
            (''argocd-cleanup-provider'', ''Provider''),
            (''argocd-cleanup-cr'', ''CustomResource'')]
      else [])"
  by (simp add: declared_def deploy_defs split: option.splits)

lemma argorollouts_declared:
  "declared c (snd (argorollouts_deploy props now c)) =
     (if createNamespace props then [(''argo-rollouts-namespace'', ''Namespace'')] else []) @
     [(''argo-rollouts'', ''HelmChart'')] @
     (if cleanupEnabled props
      then [(''argo-rollouts-cleanup-lambda'', ''Function''),
            (''argo-rollouts-cleanup-provider'', ''Provider''),
            (''argo-rollouts-cleanup-cr'', ''CustomResource'')]
      else [])"
  by (simp add: declared_def deploy_defs split: option.splits)

lemma precedes_in: "precedes seq x y \<Longrightarrow> x \<in> set seq"
  by (auto simp: precedes_def dest: set_takeWhileD)

lemma creation_orderD:
  "creation_order deps seq \<Longrightarrow> (a, b) \<in> set deps \<Longrightarrow> a \<in> set seq \<Longrightarrow> precedes seq b a"
  by (auto simp: creation_order_def)

lemma deletion_orderD:
  "deletion_order deps seq \<Longrightarrow> (a, b) \<in> set deps \<Longrightarrow> b \<in> set seq \<Longrightarrow> precedes seq a b"
  by (auto simp: deletion_order_def)

lemma deploy_dependencies:
  "dependencies (snd (deploy a props now c)) =
     dependencies c @
     (case a of
        ArgoCDCoreAddOn \<Rightarrow>
          [(''argocd-installer-sa'', ''argocd-namespace''),
           (''argocd-installer-rb'', ''argocd-installer-sa''),
           (''argocd-apply'', ''argocd-installer-rb'')]
      | _ \<Rightarrow> (if createNamespace props then [(primary_id a, namespace_id a)] else [])) @
     (if cleanupEnabled props then [(registration_id a, primary_id a)] else [])"
  by (cases a)
     (simp_all add: deploy_def core_dependencies argocd_dependencies argorollouts_dependencies
        primary_id_def registration_id_def namespace_id_def)

lemma deploy_declared:
  "declared c (snd (deploy a props now c)) =
     (case a of
        ArgoCDCoreAddOn \<Rightarrow>
          [(''argocd-namespace'', ''Namespace''),
           (''argocd-installer-sa'', ''ServiceAccount''),
           (''argocd-installer-rb'', ''ClusterRoleBinding''),
           (''argocd-apply'', ''Job'')]
      | _ \<Rightarrow> (if createNamespace props then [(namespace_id a, ''Namespace'')] else []) @
             [(primary_id a, ''HelmChart'')]) @
     (if cleanupEnabled props
      then [(case a of ArgoCDCoreAddOn \<Rightarrow> ''argocd-core-cleanup-lambda''
               | ArgoCDAddOn \<Rightarrow> ''argocd-cleanup-lambda''
               | ArgoRolloutsAddOn \<Rightarrow> ''argo-rollouts-cleanup-lambda'', ''Function''),
            (case a of ArgoCDCoreAddOn \<Rightarrow> ''argocd-core-cleanup-provider''
               | ArgoCDAddOn \<Rightarrow> ''argocd-cleanup-provider''
               | ArgoRolloutsAddOn \<Rightarrow> ''argo-rollouts-cleanup-provider'', ''Provider''),
            (registration_id a, ''CustomResource'')]
      else [])"
  by (cases a)
     (simp_all add: deploy_def core_declared argocd_declared argorollouts_declared
        primary_id_def registration_id_def namespace_id_def)

text \<open>
  Every dependency \<open>deploy\<close> declares points from a construct to one it declared
  earlier: the graphs the add-ons build have no cycle and name no construct they do not
  contain.
\<close>

lemma deploy_edges_point_back:
  "\<forall>(x, y) \<in> set (drop (length (dependencies c)) (dependencies (snd (deploy a props now c)))).
     precedes (map fst (declared c (snd (deploy a props now c)))) y x"
  by (cases a; cases "createNamespace props"; cases "cleanupEnabled props")
     (simp_all add: deploy_dependencies deploy_declared precedes_def
        primary_id_def registration_id_def namespace_id_def)

lemma core_returns:
  "cid (fst (argocdcore_deploy props now c)) = ''argocd-apply'' \<and>
   kind (fst (argocdcore_deploy props now c)) = ''Job'' \<and>
   is_primary (fst (argocdcore_deploy props now c)) \<and>
   fst (argocdcore_deploy props now c) \<in> set (children (snd (argocdcore_deploy props now c))) \<and>
   (\<not> cleanupEnabled props \<longrightarrow>
      last (children (snd (argocdcore_deploy props now c))) = fst (argocdcore_deploy props now c)) \<and>
   (cleanupEnabled props \<longrightarrow>
      cid (last (children (snd (argocdcore_deploy props now c)))) = ''argocd-core-cleanup-cr'' \<and>
      kind (last (children (snd (argocdcore_deploy props now c)))) = ''CustomResource'' \<and>
      map_of (properties (last (children (snd (argocdcore_deploy props now c))))) ''timestamp'' =
        Some (to_string now))"
  by (simp add: deploy_defs split: option.splits)

lemma argocd_returns:
  "last (children (snd (argocd_deploy props now c))) = fst (argocd_deploy props now c) \<and>
   (\<not> cleanupEnabled props \<longrightarrow>
      cid (fst (argocd_deploy props now c)) = ''argocd'' \<and>
      kind (fst (argocd_deploy props now c)) = ''HelmChart'' \<and>
      is_primary (fst (argocd_deploy props now c))) \<and>
   (cleanupEnabled props \<longrightarrow>
      cid (fst (argocd_deploy props now c)) = ''argocd-cleanup-cr'' \<and>
      kind (fst (argocd_deploy props now c)) = ''CustomResource'' \<and>
      \<not> is_primary (fst (argocd_deploy props now c)) \<and>
      map_of (properties (fst (argocd_deploy props now c))) ''timestamp'' = Some (to_string now))"
  by (simp add: deploy_defs split: option.splits)

lemma argorollouts_returns:
  "last (children (snd (argorollouts_deploy props now c))) = fst (argorollouts_deploy props now c) \<and>
   (\<not> cleanupEnabled props \<longrightarrow>
      cid (fst (argorollouts_deploy props now c)) = ''argo-rollouts'' \<and>
      kind (fst (argorollouts_deploy props now c)) = ''HelmChart'' \<and>
      is_primary (fst (argorollouts_deploy props now c))) \<and>
   (cleanupEnabled props \<longrightarrow>
      cid (fst (argorollouts_deploy props now c)) = ''argo-rollouts-cleanup-cr'' \<and>
      kind (fst (argorollouts_deploy props now c)) = ''CustomResource'' \<and>
      \<not> is_primary (fst (argorollouts_deploy props now c)) \<and>
      map_of (properties (fst (argorollouts_deploy props now c))) ''timestamp'' = Some (to_string now))"
  by (simp add: deploy_defs split: option.splits)

lemma digits_distinct: "distinct digits"
  by (simp add: digits_def)

lemma to_string_nonempty: "to_string n \<noteq> []"
  by (subst to_string.simps) simp

lemma to_string_inj: "to_string m = to_string n \<Longrightarrow> m = n"
proof (induction m arbitrary: n rule: to_string.induct)
  case (1 m)
  have len: "length digits = 10" by (simp add: digits_def)
  have digit_eq: "i = j" if "digits ! i = digits ! j" "i < 10" "j < 10" for i j
    using that nth_eq_iff_index_eq[OF digits_distinct, of i j] by (simp add: len)
  show ?case
  proof (cases "m < 10")
    case True
    show ?thesis
    proof (cases "n < 10")
      case n: True
      from "1.prems" True n have "digits ! m = digits ! n"
        by (simp add: to_string.simps[of m] to_string.simps[of n])
      then show ?thesis using True n by (rule digit_eq)
    next
      case n: False
      from "1.prems" True n show ?thesis
        using to_string_nonempty[of "n div 10"]
        by (simp add: to_string.simps[of m] to_string.simps[of n])
    qed
  next
    case False
    show ?thesis
    proof (cases "n < 10")
      case n: True
      from "1.prems" False n show ?thesis
        using to_string_nonempty[of "m div 10"]
        by (simp add: to_string.simps[of m] to_string.simps[of n])
    next
      case n: False
      from "1.prems" False n have eq: "to_string (m div 10) = to_string (n div 10)"
        "digits ! (m mod 10) = digits ! (n mod 10)"
        by (simp_all add: to_string.simps[of m] to_string.simps[of n])
      from "1.IH"[OF False eq(1)] have "m div 10 = n div 10" .
      moreover from eq(2) have "m mod 10 = n mod 10" by (rule digit_eq) simp_all
      ultimately show ?thesis by (metis div_mult_mod_eq)
    qed
  qed
qed

lemma deploy_nonce:
  "cleanupEnabled props \<Longrightarrow> nonce (snd (deploy a props now c)) = Some (to_string now)"
  using core_returns[of props now c] argocd_returns[of props now c] argorollouts_returns[of props now c]
  by (cases a) (simp_all add: deploy_def nonce_def)

section \<open>The claims about the cleanup handlers\<close>

text \<open>
  Claim C2. For every lifecycle event whose type is \<open>Create\<close> or \<open>Update\<close>, each of the
  three handlers reports \<open>SUCCESS\<close> with the message \<open>Operation <type> processed\<close> and
  issues no external command at all, whatever the runtime would answer; an invocation
  that issues a command is an invocation for a \<open>Delete\<close> event.
\<close>

theorem create_update_no_op:
  assumes "RequestType ev = ''Create'' \<or> RequestType ev = ''Update''"
  shows "sent (cleanup_handler a rt ev) =
           \<lparr>Status = SUCCESS, Data = [(''Message'', ''Operation '' @ RequestType ev @ '' processed'')]\<rparr> \<and>
         issued (cleanup_handler a rt ev) = [] \<and>
         (issued (cleanup_handler a rt ev') \<noteq> [] \<longrightarrow> RequestType ev' = ''Delete'')"
proof -
  from assms have "RequestType ev \<noteq> ''Delete''" by auto
  then show ?thesis
    by (simp add: cleanup_handler_frame handler_result)
qed

text \<open>
  The witness for C2: a \<open>Create\<close> event on a runtime where every command would fail
  issues nothing and succeeds, while the \<open>Delete\<close> event on the same runtime does issue
  a command.
\<close>

theorem create_update_no_op_witness:
  "RequestType ev_create = ''Create'' \<and>
   sent (cleanup_handler ArgoCDCoreAddOn rt_unreachable ev_create) =
     \<lparr>Status = SUCCESS, Data = [(''Message'', ''Operation Create processed'')]\<rparr> \<and>
   issued (cleanup_handler ArgoCDCoreAddOn rt_unreachable ev_create) = [] \<and>
   issued (cleanup_handler ArgoCDCoreAddOn rt_unreachable ev_delete) \<noteq> []"
proof -
  have c: "RequestType ev_create = ''Create'' \<or> RequestType ev_create = ''Update''"
    by (simp add: ev_create_def)
  have d: "delete_event ArgoCDCoreAddOn ev_delete ''eks'' ''us-east-1'' ''argocd'' ''argocd''"
    by (simp add: delete_event_def ev_delete_def)
  have u: "check_call rt_unreachable (update_kubeconfig ''eks'' ''us-east-1'') =
             Raised (CalledProcessError ''Command returned non-zero exit status 255.'')"
    by (simp add: rt_unreachable_def)
  from create_update_no_op[OF c, of ArgoCDCoreAddOn rt_unreachable ev_delete]
  show ?thesis
    by (simp add: ev_create_def delete_connect_failed[OF d u])
qed

text \<open>
  Claim C1, as stated, does not hold: the response is \<open>FAILED\<close> although
  \<open>update-kubeconfig\<close> succeeded, when a later command cannot be started (the \<open>helm\<close>
  executable is missing). The exception is not a \<open>CalledProcessError\<close>, so it passes the
  step's \<open>except\<close> clause and reaches the outer one.
\<close>

theorem delete_failed_without_connectivity_failure:
  "RequestType ev_delete = ''Delete'' \<and>
   check_call rt_no_helm (update_kubeconfig ''eks'' ''us-east-1'') = Returned \<and>
   ResourceProperties ev_delete ''clusterName'' = Some ''eks'' \<and>
   ResourceProperties ev_delete ''region'' = Some ''us-east-1'' \<and>
   Status (sent (cleanup_handler ArgoCDAddOn rt_no_helm ev_delete)) = FAILED"
  by (simp add: ev_delete_def rt_no_helm_def cleanup_handler_def handler_def helm_delete_def
        and_then_def unguarded_def guarded_def logger_def issue_def cmd_defs)

text \<open>
  Claim C1, amended. For every \<open>Delete\<close> event that carries the properties the handler
  reads, on a runtime where each cleanup command after \<open>update-kubeconfig\<close> runs and
  exits (with status zero or not), the handler reports \<open>FAILED\<close> if and only if
  \<open>update-kubeconfig\<close> fails. When it succeeds the response is \<open>SUCCESS\<close> with the
  add-on's message, and every cleanup command that exited with a non-zero status has
  its warning in the log.
\<close>

theorem delete_failed_iff_connectivity:
  assumes "delete_event a ev c rg ns rel"
      and "\<forall>st \<in> set (cleanup_steps a rel ns). exited (check_call rt (command st))"
  shows "(Status (sent (cleanup_handler a rt ev)) = FAILED \<longleftrightarrow>
            check_call rt (update_kubeconfig c rg) \<noteq> Returned) \<and>
         (check_call rt (update_kubeconfig c rg) = Returned \<longrightarrow>
            sent (cleanup_handler a rt ev) =
              \<lparr>Status = SUCCESS, Data = [(''Message'', uninstalled a)]\<rparr> \<and>
            (\<forall>(s, argv, f, w) \<in> set (cleanup_steps a rel ns). \<forall>m.
                check_call rt argv = Raised (CalledProcessError m) \<longrightarrow>
                (WARNING, w @ m) \<in> set (logged (cleanup_handler a rt ev))))"
proof (cases "check_call rt (update_kubeconfig c rg)")
  case Returned
  note res = delete_all_exited[OF assms(1) Returned assms(2)]
  have "(WARNING, w @ m) \<in> set (logged (cleanup_handler a rt ev))"
    if "(s, argv, f, w) \<in> set (cleanup_steps a rel ns)"
      and "check_call rt argv = Raised (CalledProcessError m)" for s argv f w m
  proof -
    from that(2) have "(WARNING, w @ m) \<in> set (step_records rt (s, argv, f, w))" by simp
    with that(1) have "(WARNING, w @ m) \<in> set (concat (map (step_records rt) (cleanup_steps a rel ns)))"
      by (rule step_record_logged)
    then show ?thesis by (simp add: res)
  qed
  then show ?thesis using Returned by (auto simp: res)
next
  case (Raised e)
  then show ?thesis by (simp add: delete_connect_failed[OF assms(1) Raised])
qed

text \<open>
  The witness for C1: with the release already gone (\<open>helm uninstall\<close> exits with status
  1) the handler logs the warning and reports \<open>SUCCESS\<close>; with the cluster unreachable
  it reports \<open>FAILED\<close>.
\<close>

theorem delete_failed_iff_connectivity_witness:
  "Status (sent (cleanup_handler ArgoCDAddOn rt_release_gone ev_delete)) = SUCCESS \<and>
   (WARNING, ''Error uninstalling Helm chart: Command returned non-zero exit status 1.'')
     \<in> set (logged (cleanup_handler ArgoCDAddOn rt_release_gone ev_delete)) \<and>
   Status (sent (cleanup_handler ArgoCDAddOn rt_unreachable ev_delete)) = FAILED"
proof -
  have d: "delete_event ArgoCDAddOn ev_delete ''eks'' ''us-east-1'' ''argocd'' ''argocd''"
    by (simp add: delete_event_def ev_delete_def)
  have x1: "\<forall>st \<in> set (cleanup_steps ArgoCDAddOn ''argocd'' ''argocd'').
              exited (check_call rt_release_gone (command st))"
    by (simp add: cleanup_steps_def rt_release_gone_def exited_def cmd_defs)
  have x2: "\<forall>st \<in> set (cleanup_steps ArgoCDAddOn ''argocd'' ''argocd'').
              exited (check_call rt_unreachable (command st))"
    by (simp add: cleanup_steps_def rt_unreachable_def exited_def)
  have h: "check_call rt_release_gone (helm_uninstall ''argocd'' ''argocd'') =
             Raised (CalledProcessError ''Command returned non-zero exit status 1.'')"
    by (simp add: rt_release_gone_def cmd_defs)
  have k: "check_call rt_release_gone (update_kubeconfig ''eks'' ''us-east-1'') = Returned"
    by (simp add: rt_release_gone_def cmd_defs)
  have u: "check_call rt_unreachable (update_kubeconfig ''eks'' ''us-east-1'') \<noteq> Returned"
    by (simp add: rt_unreachable_def)
  from delete_failed_iff_connectivity[OF d x1] delete_failed_iff_connectivity[OF d x2] h k u
  show ?thesis
    by (auto simp: cleanup_steps_def)
qed

text \<open>
  Claim C5, as stated, does not hold: when \<open>helm uninstall\<close> cannot be started, the
  failure of step 2 is not absorbed, no warning is written, and the namespace deletion
  is never issued.
\<close>

theorem delete_stops_at_unstartable_step:
  "RequestType ev_delete = ''Delete'' \<and>
   check_call rt_no_helm (update_kubeconfig ''eks'' ''us-east-1'') = Returned \<and>
   check_call rt_no_helm (helm_uninstall ''argocd'' ''argocd'') =
     Raised (OtherException ''[Errno 2] No such file or directory: helm'') \<and>
   issued (cleanup_handler ArgoCDAddOn rt_no_helm ev_delete) =
     [update_kubeconfig ''eks'' ''us-east-1'', helm_uninstall ''argocd'' ''argocd''] \<and>
   delete_namespace ''argocd'' \<notin> set (issued (cleanup_handler ArgoCDAddOn rt_no_helm ev_delete)) \<and>
   logged (cleanup_handler ArgoCDAddOn rt_no_helm ev_delete) =
     [(INFO, ''Received event: {...}''),
      (INFO, ''Starting ArgoCD uninstallation: argocd in namespace argocd''),
      (INFO, ''Executing helm uninstall argocd -n argocd''),
      (ERROR, ''Error: [Errno 2] No such file or directory: helm'')]"
  by (simp add: ev_delete_def rt_no_helm_def cleanup_handler_def handler_def helm_delete_def
        and_then_def unguarded_def guarded_def logger_def issue_def cmd_defs)

text \<open>
  Claim C5, amended. For every \<open>Delete\<close> event that carries the properties the handler
  reads, and every runtime, the commands are issued in the fixed order:
  \<open>update-kubeconfig\<close>; then, for \<open>ArgoCDCoreAddOn\<close>, deletion of the namespace's
  resources, deletion of the CRDs, deletion of the namespace, and for the Helm add-ons
  \<open>helm uninstall\<close>, deletion of the namespace. What is issued is always a non-empty
  initial part of that list: \<open>update-kubeconfig\<close> alone when it fails, otherwise
  \<open>update-kubeconfig\<close> and the steps reached. Whenever a step is issued and its command
  exits with a non-zero status (\<open>CalledProcessError\<close>), its warning is logged and the
  following step, if there is one, is issued as well, whatever that step and the later
  ones do.
\<close>

theorem delete_steps_in_order:
  assumes "delete_event a ev c rg ns rel"
  shows "map command (cleanup_steps a rel ns) =
           (case a of
              ArgoCDCoreAddOn \<Rightarrow> [delete_all ns, delete_crd, delete_namespace ns]
            | _ \<Rightarrow> [helm_uninstall rel ns, delete_namespace ns]) \<and>
         issued (cleanup_handler a rt ev) =
           (if check_call rt (update_kubeconfig c rg) = Returned
            then update_kubeconfig c rg # map command (reached rt (cleanup_steps a rel ns))
            else [update_kubeconfig c rg]) \<and>
         (\<exists>k. issued (cleanup_handler a rt ev) =
                take (Suc k) (update_kubeconfig c rg # map command (cleanup_steps a rel ns))) \<and>
         (\<forall>pre s argv f w post m.
            cleanup_steps a rel ns = pre @ (s, argv, f, w) # post \<and>
            argv \<in> set (issued (cleanup_handler a rt ev)) \<and>
            check_call rt argv = Raised (CalledProcessError m) \<longrightarrow>
            (WARNING, w @ m) \<in> set (logged (cleanup_handler a rt ev)) \<and>
            set (map command (take 1 post)) \<subseteq> set (issued (cleanup_handler a rt ev)))"
proof (intro conjI allI impI)
  show "map command (cleanup_steps a rel ns) =
           (case a of
              ArgoCDCoreAddOn \<Rightarrow> [delete_all ns, delete_crd, delete_namespace ns]
            | _ \<Rightarrow> [helm_uninstall rel ns, delete_namespace ns])"
    by (cases a) (simp_all add: cleanup_steps_def)
next
  show iss: "issued (cleanup_handler a rt ev) =
           (if check_call rt (update_kubeconfig c rg) = Returned
            then update_kubeconfig c rg # map command (reached rt (cleanup_steps a rel ns))
            else [update_kubeconfig c rg])"
  proof (cases "check_call rt (update_kubeconfig c rg)")
    case Returned
    then show ?thesis by (simp add: delete_result[OF assms Returned])
  next
    case (Raised e)
    then show ?thesis by (simp add: delete_connect_failed[OF assms Raised])
  qed
  have pref: "\<exists>k. reached rt ss = take k ss" for ss
  proof (induction ss)
    case Nil
    show ?case by simp
  next
    case (Cons st ss)
    then obtain k where k: "reached rt ss = take k ss" by blast
    show ?case
    proof (cases "exited (check_call rt (command st))")
      case True
      with k have "reached rt (st # ss) = take (Suc k) (st # ss)" by simp
      then show ?thesis by blast
    next
      case False
      then have "reached rt (st # ss) = take (Suc 0) (st # ss)" by simp
      then show ?thesis by blast
    qed
  qed
  show "\<exists>k. issued (cleanup_handler a rt ev) =
                take (Suc k) (update_kubeconfig c rg # map command (cleanup_steps a rel ns))"
  proof (cases "check_call rt (update_kubeconfig c rg) = Returned")
    case True
    from pref[of "cleanup_steps a rel ns"] obtain k
      where "reached rt (cleanup_steps a rel ns) = take k (cleanup_steps a rel ns)" by blast
    with True iss have "issued (cleanup_handler a rt ev) =
        take (Suc k) (update_kubeconfig c rg # map command (cleanup_steps a rel ns))"
      by (simp add: take_map)
    then show ?thesis by blast
  next
    case False
    with iss have "issued (cleanup_handler a rt ev) =
        take (Suc 0) (update_kubeconfig c rg # map command (cleanup_steps a rel ns))"
      by simp
    then show ?thesis by blast
  qed
next
  fix pre s argv f w post m
  assume h: "cleanup_steps a rel ns = pre @ (s, argv, f, w) # post \<and>
             argv \<in> set (issued (cleanup_handler a rt ev)) \<and>
             check_call rt argv = Raised (CalledProcessError m)"
  let ?R = "cleanup_handler a rt ev"
  let ?st = "(s, argv, f, w)"
  from h have eq: "cleanup_steps a rel ns = pre @ ?st # post"
    and im: "argv \<in> set (issued ?R)"
    and cpe: "check_call rt argv = Raised (CalledProcessError m)" by simp_all
  have dist: "distinct (update_kubeconfig c rg # map command (pre @ ?st # post))"
    using commands_distinct[of c rg a rel ns] by (simp add: eq)
  then have ne: "argv \<noteq> update_kubeconfig c rg" and np: "argv \<notin> command ` set pre"
    by auto
  have ret: "check_call rt (update_kubeconfig c rg) = Returned"
  proof (cases "check_call rt (update_kubeconfig c rg)")
    case Returned
    then show ?thesis .
  next
    case (Raised e)
    with im ne show ?thesis by (simp add: delete_connect_failed[OF assms Raised])
  qed
  note res = delete_result[OF assms ret]
  from im ne have mem: "argv \<in> command ` set (reached rt (pre @ ?st # post))"
    by (simp add: res eq)
  have pre_exited: "\<forall>st \<in> set pre. exited (check_call rt (command st))"
  proof (rule ccontr)
    assume n: "\<not> ?thesis"
    have "reached rt (pre @ ?st # post) = reached rt pre"
      by (subst reached_append) (use n in auto)
    with mem reached_subset[of rt pre] np show False by auto
  qed
  from cpe have ex: "exited (check_call rt argv)" by (simp add: exited_def)
  from pre_exited ex have r: "reached rt (pre @ ?st # post) = pre @ ?st # reached rt post"
    by (simp add: reached_append)
  from cpe have "(WARNING, w @ m) \<in> set (step_log rt ?st)" by simp
  then have 1: "(WARNING, w @ m) \<in> set (logged ?R)"
    by (simp add: res eq r del: step_log.simps)
  have "set (map command (take 1 post)) \<subseteq> set (map command (reached rt post))"
    using reached_first[of post rt] by (simp only: set_map image_mono)
  then have 2: "set (map command (take 1 post)) \<subseteq> set (issued ?R)"
    by (auto simp: res eq r)
  from 1 show "(WARNING, w @ m) \<in> set (logged ?R)" .
  from 2 show "set (map command (take 1 post)) \<subseteq> set (issued ?R)" .
qed

text \<open>
  The witness for C5: for \<open>ArgoCDAddOn\<close>, \<open>helm uninstall\<close> exits with status 1 and
  \<open>kubectl\<close> cannot be started: the warning is logged and the namespace deletion is
  issued all the same. For \<open>ArgoCDCoreAddOn\<close>, the CRD deletion exits with status 1: all
  four commands are issued in order, with one warning; and when the cluster cannot be
  reached only \<open>update-kubeconfig\<close> is issued.
\<close>

theorem delete_steps_in_order_witness:
  "issued (cleanup_handler ArgoCDAddOn rt_mixed ev_delete) =
     [[''aws'', ''eks'', ''update-kubeconfig'', ''--name'', ''eks'', ''--region'', ''us-east-1''],
      [''helm'', ''uninstall'', ''argocd'', ''-n'', ''argocd''],
      [''kubectl'', ''delete'', ''namespace'', ''argocd'', ''--ignore-not-found'']] \<and>
   (WARNING, ''Error uninstalling Helm chart: Command returned non-zero exit status 1.'')
     \<in> set (logged (cleanup_handler ArgoCDAddOn rt_mixed ev_delete)) \<and>
   issued (cleanup_handler ArgoCDCoreAddOn rt_crd_fails ev_delete) =
     [[''aws'', ''eks'', ''update-kubeconfig'', ''--name'', ''eks'', ''--region'', ''us-east-1''],
      [''kubectl'', ''delete'', ''all'', ''--all'', ''-n'', ''argocd''],
      [''kubectl'', ''delete'', ''crd'', ''-l'', ''app.kubernetes.io/part-of=argocd''],
      [''kubectl'', ''delete'', ''namespace'', ''argocd'', ''--ignore-not-found'']] \<and>
   (WARNING, ''Error deleting CRDs: Command returned non-zero exit status 1.'')
     \<in> set (logged (cleanup_handler ArgoCDCoreAddOn rt_crd_fails ev_delete)) \<and>
   issued (cleanup_handler ArgoCDCoreAddOn rt_unreachable ev_delete) =
     [[''aws'', ''eks'', ''update-kubeconfig'', ''--name'', ''eks'', ''--region'', ''us-east-1'']]"
proof -
  have d1: "delete_event ArgoCDAddOn ev_delete ''eks'' ''us-east-1'' ''argocd'' ''argocd''"
    by (simp add: delete_event_def ev_delete_def)
  have d2: "delete_event ArgoCDCoreAddOn ev_delete ''eks'' ''us-east-1'' ''argocd'' ''argocd''"
    by (simp add: delete_event_def ev_delete_def)
  note t1 = delete_steps_in_order[OF d1, of rt_mixed]
  note t2 = delete_steps_in_order[OF d2, of rt_crd_fails]
  note t3 = delete_steps_in_order[OF d2, of rt_unreachable]
  have i1: "issued (cleanup_handler ArgoCDAddOn rt_mixed ev_delete) =
     [[''aws'', ''eks'', ''update-kubeconfig'', ''--name'', ''eks'', ''--region'', ''us-east-1''],
      [''helm'', ''uninstall'', ''argocd'', ''-n'', ''argocd''],
      [''kubectl'', ''delete'', ''namespace'', ''argocd'', ''--ignore-not-found'']]"
    using t1 by (simp add: cleanup_steps_def rt_mixed_def exited_def cmd_defs)
  have s1: "cleanup_steps ArgoCDAddOn ''argocd'' ''argocd'' =
      [] @ (''Executing helm uninstall argocd -n argocd'', helm_uninstall ''argocd'' ''argocd'',
            ''Helm uninstall completed successfully'', ''Error uninstalling Helm chart: '')
         # [(''Deleting namespace argocd'', delete_namespace ''argocd'',
             ''Namespace deleted successfully'', ''Error deleting namespace: '')]"
    by (simp add: cleanup_steps_def)
  have h1: "check_call rt_mixed (helm_uninstall ''argocd'' ''argocd'') =
              Raised (CalledProcessError ''Command returned non-zero exit status 1.'')"
    by (simp add: rt_mixed_def cmd_defs)
  have m1: "helm_uninstall ''argocd'' ''argocd'' \<in> set (issued (cleanup_handler ArgoCDAddOn rt_mixed ev_delete))"
    by (simp add: i1 cmd_defs)
  from t1[THEN conjunct2, THEN conjunct2, THEN conjunct2, rule_format, OF conjI[OF s1 conjI[OF m1 h1]]]
  have w1: "(WARNING, ''Error uninstalling Helm chart: Command returned non-zero exit status 1.'')
     \<in> set (logged (cleanup_handler ArgoCDAddOn rt_mixed ev_delete))"
    by simp
  have i2: "issued (cleanup_handler ArgoCDCoreAddOn rt_crd_fails ev_delete) =
     [[''aws'', ''eks'', ''update-kubeconfig'', ''--name'', ''eks'', ''--region'', ''us-east-1''],
      [''kubectl'', ''delete'', ''all'', ''--all'', ''-n'', ''argocd''],
      [''kubectl'', ''delete'', ''crd'', ''-l'', ''app.kubernetes.io/part-of=argocd''],
      [''kubectl'', ''delete'', ''namespace'', ''argocd'', ''--ignore-not-found'']]"
    using t2 by (simp add: cleanup_steps_def rt_crd_fails_def exited_def cmd_defs)
  have s2: "cleanup_steps ArgoCDCoreAddOn ''argocd'' ''argocd'' =
      [(''Deleting ArgoCD resources in namespace argocd'', delete_all ''argocd'',
        ''Resources deleted successfully'', ''Error deleting resources: '')]
      @ (''Deleting ArgoCD CRDs'', delete_crd, ''CRDs deleted successfully'', ''Error deleting CRDs: '')
      # [(''Deleting namespace argocd'', delete_namespace ''argocd'',
          ''Namespace deleted successfully'', ''Error deleting namespace: '')]"
    by (simp add: cleanup_steps_def)
  have h2: "check_call rt_crd_fails delete_crd =
              Raised (CalledProcessError ''Command returned non-zero exit status 1.'')"
    by (simp add: rt_crd_fails_def)
  have m2: "delete_crd \<in> set (issued (cleanup_handler ArgoCDCoreAddOn rt_crd_fails ev_delete))"
    by (simp add: i2 cmd_defs)
  from t2[THEN conjunct2, THEN conjunct2, THEN conjunct2, rule_format, OF conjI[OF s2 conjI[OF m2 h2]]]
  have w2: "(WARNING, ''Error deleting CRDs: Command returned non-zero exit status 1.'')
     \<in> set (logged (cleanup_handler ArgoCDCoreAddOn rt_crd_fails ev_delete))"
    by simp
  have i3: "issued (cleanup_handler ArgoCDCoreAddOn rt_unreachable ev_delete) =
     [[''aws'', ''eks'', ''update-kubeconfig'', ''--name'', ''eks'', ''--region'', ''us-east-1'']]"
    using t3 by (simp add: rt_unreachable_def cmd_defs)
  from i1 w1 i2 w2 i3 show ?thesis by blast
qed

text \<open>
  Claim C10. In the \<open>Delete\<close> path, after a successful \<open>update-kubeconfig\<close>: the handler
  reports \<open>FAILED\<close> exactly when some cleanup command raises an exception other than
  \<open>CalledProcessError\<close>. At the first step that raises: a \<open>CalledProcessError\<close> is absorbed
  there (its warning is logged and the next step, if any, is issued); any other
  exception reaches the outer handler, which reports \<open>FAILED\<close> with the exception's text,
  logs it as the last record, and leaves the remaining steps unissued.
\<close>

theorem only_exit_status_failures_absorbed:
  assumes "delete_event a ev c rg ns rel"
      and "check_call rt (update_kubeconfig c rg) = Returned"
  shows "(Status (sent (cleanup_handler a rt ev)) = FAILED \<longleftrightarrow>
            (\<exists>st \<in> set (cleanup_steps a rel ns). \<not> exited (check_call rt (command st)))) \<and>
         (\<forall>pre s argv f w post e.
            cleanup_steps a rel ns = pre @ (s, argv, f, w) # post \<and>
            (\<forall>st \<in> set pre. exited (check_call rt (command st))) \<and>
            check_call rt argv = Raised e \<longrightarrow>
            (case e of
               CalledProcessError m \<Rightarrow>
                 (WARNING, w @ m) \<in> set (logged (cleanup_handler a rt ev)) \<and>
                 set (map command (take 1 post)) \<subseteq> set (issued (cleanup_handler a rt ev))
             | _ \<Rightarrow>
                 sent (cleanup_handler a rt ev) = \<lparr>Status = FAILED, Data = [(''Error'', str e)]\<rparr> \<and>
                 issued (cleanup_handler a rt ev) = update_kubeconfig c rg # map command pre @ [argv] \<and>
                 last (logged (cleanup_handler a rt ev)) = (ERROR, ''Error: '' @ str e)))"
proof (intro conjI allI impI)
  show "Status (sent (cleanup_handler a rt ev)) = FAILED \<longleftrightarrow>
          (\<exists>st \<in> set (cleanup_steps a rel ns). \<not> exited (check_call rt (command st)))"
    using first_escaping_None[of rt "cleanup_steps a rel ns"]
    by (cases "first_escaping rt (cleanup_steps a rel ns)")
       (auto simp: delete_status[OF assms(1)] assms(2))
next
  fix pre s argv f w post e
  assume h: "cleanup_steps a rel ns = pre @ (s, argv, f, w) # post \<and>
            (\<forall>st \<in> set pre. exited (check_call rt (command st))) \<and>
            check_call rt argv = Raised e"
  let ?R = "cleanup_handler a rt ev"
  let ?r0 = "connected a rt ev c rg ns rel"
  show "case e of
          CalledProcessError m \<Rightarrow>
            (WARNING, w @ m) \<in> set (logged ?R) \<and>
            set (map command (take 1 post)) \<subseteq> set (issued ?R)
        | _ \<Rightarrow>
            sent ?R = \<lparr>Status = FAILED, Data = [(''Error'', str e)]\<rparr> \<and>
            issued ?R = update_kubeconfig c rg # map command pre @ [argv] \<and>
            last (logged ?R) = (ERROR, ''Error: '' @ str e)"
  proof (cases "escaping (check_call rt argv)")
    case (Some e')
    with h have e: "e' = e" "\<forall>m. e \<noteq> CalledProcessError m" by (auto simp: escaping_Some)
    from h Some e(1) have "?R =
       \<lparr>sent = \<lparr>Status = FAILED, Data = [(''Error'', str e)]\<rparr>,
        issued = update_kubeconfig c rg # map command pre @ [argv],
        logged = [(INFO, ''Received event: '' @ str_event rt ev), (INFO, starting a rel ns)]
                 @ concat (map (step_records rt) pre)
                 @ [(INFO, s), (ERROR, ''Error: '' @ str e)]\<rparr>"
      by (intro delete_escaped[OF assms]) auto
    with e(2) show ?thesis by (cases e) auto
  next
    case None
    with h obtain m where m: "e = CalledProcessError m"
      by (cases e) (auto simp: escaping_def)
    let ?pre = "pre @ [(s, argv, f, w)]"
    let ?r1 = "?r0\<lparr>calls := calls ?r0 @ map command ?pre,
                     log := log ?r0 @ concat (map (step_records rt) ?pre)\<rparr>"
    from h None have x: "\<forall>st \<in> set ?pre. exited (check_call rt (command st))"
      by (auto simp: escaping_None)
    from h have "run_steps rt (cleanup_steps a rel ns) ?r0 = run_steps rt (?pre @ post) ?r0" by simp
    also have "\<dots> = run_steps rt post ?r1" by (rule run_steps_append_exited[OF x])
    finally have run: "run_steps rt (cleanup_steps a rel ns) ?r0 = run_steps rt post ?r1" .
    have "(WARNING, w @ m) \<in> set (log ?r1)" using h m by simp
    with run_steps_log[of ?r1 rt post] have "(WARNING, w @ m) \<in> set (log (snd (run_steps rt post ?r1)))"
      by blast
    with delete_connected[OF assms] run have 1: "(WARNING, w @ m) \<in> set (logged ?R)" by auto
    from run_steps_calls[of post rt ?r1] obtain k where
      k: "post \<noteq> [] \<longrightarrow> 0 < k" "calls (snd (run_steps rt post ?r1)) = calls ?r1 @ map command (take k post)"
      by blast
    have "set (take 1 post) \<subseteq> set (take k post)"
    proof (cases post)
      case Nil
      then show ?thesis by simp
    next
      case (Cons p ps)
      with k(1) obtain j where "k = Suc j" by (cases k) auto
      with Cons show ?thesis by simp
    qed
    then have "set (map command (take 1 post)) \<subseteq> set (calls (snd (run_steps rt post ?r1)))"
      unfolding k(2) by auto
    with delete_connected[OF assms] run have 2: "set (map command (take 1 post)) \<subseteq> set (issued ?R)"
      by simp
    from 1 2 show ?thesis by (simp add: m)
  qed
qed

text \<open>
  The witness for C10: a missing \<open>helm\<close> executable gives \<open>FAILED\<close> and no namespace
  deletion; a non-zero exit of \<open>helm uninstall\<close> gives a warning, the namespace deletion
  and \<open>SUCCESS\<close>.
\<close>

theorem only_exit_status_failures_absorbed_witness:
  "Status (sent (cleanup_handler ArgoRolloutsAddOn rt_no_helm ev_delete)) = FAILED \<and>
   sent (cleanup_handler ArgoRolloutsAddOn rt_no_helm ev_delete) =
     \<lparr>Status = FAILED, Data = [(''Error'', ''[Errno 2] No such file or directory: helm'')]\<rparr> \<and>
   issued (cleanup_handler ArgoRolloutsAddOn rt_no_helm ev_delete) =
     [update_kubeconfig ''eks'' ''us-east-1'', helm_uninstall ''argocd'' ''argocd''] \<and>
   Status (sent (cleanup_handler ArgoRolloutsAddOn rt_release_gone ev_delete)) = SUCCESS \<and>
   (WARNING, ''Error uninstalling Helm chart: Command returned non-zero exit status 1.'')
     \<in> set (logged (cleanup_handler ArgoRolloutsAddOn rt_release_gone ev_delete)) \<and>
   delete_namespace ''argocd'' \<in> set (issued (cleanup_handler ArgoRolloutsAddOn rt_release_gone ev_delete))"
proof -
  have d: "delete_event ArgoRolloutsAddOn ev_delete ''eks'' ''us-east-1'' ''argocd'' ''argocd''"
    by (simp add: delete_event_def ev_delete_def)
  have k1: "check_call rt_no_helm (update_kubeconfig ''eks'' ''us-east-1'') = Returned"
    by (simp add: rt_no_helm_def cmd_defs)
  have k2: "check_call rt_release_gone (update_kubeconfig ''eks'' ''us-east-1'') = Returned"
    by (simp add: rt_release_gone_def cmd_defs)
  have s: "cleanup_steps ArgoRolloutsAddOn ''argocd'' ''argocd'' =
      [] @ (''Executing helm uninstall argocd -n argocd'', helm_uninstall ''argocd'' ''argocd'',
            ''Helm uninstall completed successfully'', ''Error uninstalling Helm chart: '')
         # [(''Deleting namespace argocd'', delete_namespace ''argocd'',
             ''Namespace deleted successfully'', ''Error deleting namespace: '')]"
    by (simp add: cleanup_steps_def)
  have h1: "check_call rt_no_helm (helm_uninstall ''argocd'' ''argocd'') =
              Raised (OtherException ''[Errno 2] No such file or directory: helm'')"
    by (simp add: rt_no_helm_def cmd_defs)
  have h2: "check_call rt_release_gone (helm_uninstall ''argocd'' ''argocd'') =
              Raised (CalledProcessError ''Command returned non-zero exit status 1.'')"
    by (simp add: rt_release_gone_def cmd_defs)
  have n2: "check_call rt_release_gone (delete_namespace ''argocd'') = Returned"
    by (simp add: rt_release_gone_def cmd_defs)
  note t1 = only_exit_status_failures_absorbed[OF d k1]
  note t2 = only_exit_status_failures_absorbed[OF d k2]
  from t1 have a: "sent (cleanup_handler ArgoRolloutsAddOn rt_no_helm ev_delete) =
       \<lparr>Status = FAILED, Data = [(''Error'', ''[Errno 2] No such file or directory: helm'')]\<rparr> \<and>
     issued (cleanup_handler ArgoRolloutsAddOn rt_no_helm ev_delete) =
       [update_kubeconfig ''eks'' ''us-east-1'', helm_uninstall ''argocd'' ''argocd'']"
    using s h1 by fastforce
  from t2 have b: "(WARNING, ''Error uninstalling Helm chart: Command returned non-zero exit status 1.'')
       \<in> set (logged (cleanup_handler ArgoRolloutsAddOn rt_release_gone ev_delete)) \<and>
     delete_namespace ''argocd'' \<in> set (issued (cleanup_handler ArgoRolloutsAddOn rt_release_gone ev_delete))"
    using s h2 by fastforce
  from t2 have c: "Status (sent (cleanup_handler ArgoRolloutsAddOn rt_release_gone ev_delete)) \<noteq> FAILED"
    using h2 n2 by (simp add: cleanup_steps_def exited_def)
  from a b c show ?thesis by (cases "Status (sent (cleanup_handler ArgoRolloutsAddOn rt_release_gone ev_delete))") auto
qed




section \<open>The claims about the deployment\<close>

text \<open>
  Claim C4. \<open>ArgoCDCoreAddOn.deploy\<close> declares, in this order, the namespace, the
  installer's service account, its cluster role binding and the install job, and makes
  each of the last three depend on the one before it; the Helm add-ons declare the
  namespace and then the chart, which depends on the namespace (with
  \<open>createNamespace\<close> false the chart alone, with no dependency). Hence in every creation
  sequence that honours the declared dependencies and creates the add-on's workload or
  chart, the namespace is created before the service account, the service account
  before the role binding, the role binding before the workload (and the namespace
  before the chart): no creation comes before that of a resource it depends on.
\<close>

theorem resources_created_in_dependency_order:
  assumes "creation_order (dependencies (snd (deploy a props now c))) seq"
      and "primary_id a \<in> set seq"
  shows "(a = ArgoCDCoreAddOn \<longrightarrow>
            take 4 (declared c (snd (deploy a props now c))) =
              [(''argocd-namespace'', ''Namespace''),
               (''argocd-installer-sa'', ''ServiceAccount''),
               (''argocd-installer-rb'', ''ClusterRoleBinding''),
               (''argocd-apply'', ''Job'')] \<and>
            set [(''argocd-installer-sa'', ''argocd-namespace''),
                 (''argocd-installer-rb'', ''argocd-installer-sa''),
                 (''argocd-apply'', ''argocd-installer-rb'')]
              \<subseteq> set (dependencies (snd (deploy a props now c))) \<and>
            precedes seq ''argocd-namespace'' ''argocd-installer-sa'' \<and>
            precedes seq ''argocd-installer-sa'' ''argocd-installer-rb'' \<and>
            precedes seq ''argocd-installer-rb'' ''argocd-apply'') \<and>
         (a \<noteq> ArgoCDCoreAddOn \<and> createNamespace props \<longrightarrow>
            take 2 (declared c (snd (deploy a props now c))) =
              [(namespace_id a, ''Namespace''), (primary_id a, ''HelmChart'')] \<and>
            (primary_id a, namespace_id a) \<in> set (dependencies (snd (deploy a props now c))) \<and>
            precedes seq (namespace_id a) (primary_id a)) \<and>
         (a \<noteq> ArgoCDCoreAddOn \<and> \<not> createNamespace props \<longrightarrow>
            take 1 (declared c (snd (deploy a props now c))) = [(primary_id a, ''HelmChart'')])"
proof (cases a)
  case ArgoCDCoreAddOn
  let ?deps = "dependencies (snd (deploy a props now c))"
  have edges: "(''argocd-installer-sa'', ''argocd-namespace'') \<in> set ?deps"
    "(''argocd-installer-rb'', ''argocd-installer-sa'') \<in> set ?deps"
    "(''argocd-apply'', ''argocd-installer-rb'') \<in> set ?deps"
    by (simp_all add: deploy_dependencies ArgoCDCoreAddOn)
  from assms(2) have "''argocd-apply'' \<in> set seq" by (simp add: ArgoCDCoreAddOn primary_id_def)
  from creation_orderD[OF assms(1) edges(3) this]
  have 3: "precedes seq ''argocd-installer-rb'' ''argocd-apply''" .
  from creation_orderD[OF assms(1) edges(2) precedes_in[OF 3]]
  have 2: "precedes seq ''argocd-installer-sa'' ''argocd-installer-rb''" .
  from creation_orderD[OF assms(1) edges(1) precedes_in[OF 2]]
  have 1: "precedes seq ''argocd-namespace'' ''argocd-installer-sa''" .
  from 1 2 3 edges show ?thesis by (simp add: ArgoCDCoreAddOn deploy_declared)
next
  case ArgoCDAddOn
  show ?thesis
  proof (cases "createNamespace props")
    case True
    then have "(primary_id a, namespace_id a) \<in> set (dependencies (snd (deploy a props now c)))"
      by (simp add: deploy_dependencies ArgoCDAddOn)
    from creation_orderD[OF assms(1) this assms(2)] this True show ?thesis
      by (simp add: ArgoCDAddOn deploy_declared)
  next
    case False
    then show ?thesis by (simp add: ArgoCDAddOn deploy_declared)
  qed
next
  case ArgoRolloutsAddOn
  show ?thesis
  proof (cases "createNamespace props")
    case True
    then have "(primary_id a, namespace_id a) \<in> set (dependencies (snd (deploy a props now c)))"
      by (simp add: deploy_dependencies ArgoRolloutsAddOn)
    from creation_orderD[OF assms(1) this assms(2)] this True show ?thesis
      by (simp add: ArgoRolloutsAddOn deploy_declared)
  next
    case False
    then show ?thesis by (simp add: ArgoRolloutsAddOn deploy_declared)
  qed
qed

text \<open>
  The witness for C4: \<open>ArgoCDCoreAddOn\<close> with its default properties and a creation
  sequence that interleaves the cleanup constructs; the reversed sequence does not
  honour the dependencies.
\<close>

theorem resources_created_in_dependency_order_witness:
  "creation_order (dependencies (snd (deploy ArgoCDCoreAddOn props0 1712345678901 cluster0))) seq_core \<and>
   primary_id ArgoCDCoreAddOn \<in> set seq_core \<and>
   precedes seq_core ''argocd-namespace'' ''argocd-installer-sa'' \<and>
   precedes seq_core ''argocd-installer-sa'' ''argocd-installer-rb'' \<and>
   precedes seq_core ''argocd-installer-rb'' ''argocd-apply'' \<and>
   \<not> creation_order (dependencies (snd (deploy ArgoCDCoreAddOn props0 1712345678901 cluster0)))
       (rev seq_core)"
proof -
  have d: "dependencies (snd (deploy ArgoCDCoreAddOn props0 1712345678901 cluster0)) =
      [(''argocd-installer-sa'', ''argocd-namespace''),
       (''argocd-installer-rb'', ''argocd-installer-sa''),
       (''argocd-apply'', ''argocd-installer-rb''),
       (''argocd-core-cleanup-cr'', ''argocd-apply'')]"
    by (simp add: deploy_dependencies cluster0_def props0_def cleanupEnabled_def
          registration_id_def primary_id_def)
  have o: "creation_order (dependencies (snd (deploy ArgoCDCoreAddOn props0 1712345678901 cluster0))) seq_core"
    unfolding d by (simp add: creation_order_def precedes_def seq_core_def)
  have p: "primary_id ArgoCDCoreAddOn \<in> set seq_core"
    by (simp add: primary_id_def seq_core_def)
  have n: "\<not> creation_order (dependencies (snd (deploy ArgoCDCoreAddOn props0 1712345678901 cluster0)))
       (rev seq_core)"
    unfolding d by (simp add: creation_order_def precedes_def seq_core_def)
  from resources_created_in_dependency_order[OF o p] o p n show ?thesis by simp
qed

text \<open>
  Claim C6, as stated, does not hold: with cleanup enabled (the default) the Helm
  add-ons return the cleanup custom resource, which is the teardown registration itself
  and neither the chart release nor a workload manifest.
\<close>

theorem deploy_returns_registration:
  "cleanupEnabled props0 \<and>
   fst (deploy ArgoCDAddOn props0 1712345678901 cluster0) =
     CustomResource ''argocd-cleanup-cr'' ''argocd-cleanup-provider''
       [(''timestamp'', ''1712345678901''), (''namespace'', ''argocd''), (''releaseName'', ''argocd''),
        (''clusterName'', ''eks''), (''region'', ''us-east-1'')]
       ''Custom::ArgoCDCleanup'' \<and>
   \<not> is_primary (fst (deploy ArgoCDAddOn props0 1712345678901 cluster0)) \<and>
   cid (fst (deploy ArgoCDAddOn props0 1712345678901 cluster0)) \<noteq> primary_id ArgoCDAddOn"
  by (simp add: deploy_def deploy_defs props0_def cluster0_def primary_id_def
        to_string.simps digits_def)

text \<open>
  Claim C6, amended. \<open>ArgoCDCoreAddOn.deploy\<close> always returns the install-job manifest,
  and the Helm add-ons return the chart release when cleanup is disabled: a primary
  resource. With cleanup enabled the Helm add-ons return the cleanup custom resource,
  which depends on the chart release. The returned construct is the last one created,
  except for \<open>ArgoCDCoreAddOn\<close> with cleanup enabled, where the last one created is the
  cleanup custom resource, which depends on the returned manifest. The teardown
  registration is attached inside \<open>deploy\<close>.
\<close>

theorem deploy_returns:
  "(a = ArgoCDCoreAddOn \<or> \<not> cleanupEnabled props \<longrightarrow>
      is_primary (fst (deploy a props now c)) \<and>
      cid (fst (deploy a props now c)) = primary_id a \<and>
      kind (fst (deploy a props now c)) = (if a = ArgoCDCoreAddOn then ''Job'' else ''HelmChart'')) \<and>
   (a \<noteq> ArgoCDCoreAddOn \<and> cleanupEnabled props \<longrightarrow>
      \<not> is_primary (fst (deploy a props now c)) \<and>
      cid (fst (deploy a props now c)) = registration_id a \<and>
      kind (fst (deploy a props now c)) = ''CustomResource'' \<and>
      (registration_id a, primary_id a) \<in> set (dependencies (snd (deploy a props now c)))) \<and>
   (a \<noteq> ArgoCDCoreAddOn \<or> \<not> cleanupEnabled props \<longrightarrow>
      last (children (snd (deploy a props now c))) = fst (deploy a props now c)) \<and>
   (a = ArgoCDCoreAddOn \<and> cleanupEnabled props \<longrightarrow>
      cid (last (children (snd (deploy a props now c)))) = registration_id a \<and>
      (registration_id a, cid (fst (deploy a props now c)))
        \<in> set (dependencies (snd (deploy a props now c))))"
proof (cases a)
  case ArgoCDCoreAddOn
  then show ?thesis
    using core_returns[of props now c]
    by (simp add: deploy_def core_dependencies primary_id_def registration_id_def)
next
  case ArgoCDAddOn
  then show ?thesis
    using argocd_returns[of props now c]
    by (simp add: deploy_def argocd_dependencies primary_id_def registration_id_def)
next
  case ArgoRolloutsAddOn
  then show ?thesis
    using argorollouts_returns[of props now c]
    by (simp add: deploy_def argorollouts_dependencies primary_id_def registration_id_def)
qed

text \<open>
  The witness for C6: the returned construct for \<open>ArgoCDCoreAddOn\<close> with the default
  properties, and for \<open>ArgoRolloutsAddOn\<close> with cleanup disabled and enabled.
\<close>

theorem deploy_returns_witness:
  "cid (fst (deploy ArgoCDCoreAddOn props0 1712345678901 cluster0)) = ''argocd-apply'' \<and>
   is_primary (fst (deploy ArgoCDCoreAddOn props0 1712345678901 cluster0)) \<and>
   cid (fst (deploy ArgoRolloutsAddOn props_no_cleanup 1712345678901 cluster0)) = ''argo-rollouts'' \<and>
   is_primary (fst (deploy ArgoRolloutsAddOn props_no_cleanup 1712345678901 cluster0)) \<and>
   cid (fst (deploy ArgoRolloutsAddOn props0 1712345678901 cluster0)) = ''argo-rollouts-cleanup-cr'' \<and>
   kind (fst (deploy ArgoRolloutsAddOn props0 1712345678901 cluster0)) = ''CustomResource''"
proof -
  have e: "cleanupEnabled props0" "\<not> cleanupEnabled props_no_cleanup"
    by (simp_all add: cleanupEnabled_def props0_def props_no_cleanup_def)
  from deploy_returns[of ArgoCDCoreAddOn props0 1712345678901 cluster0]
  have 1: "cid (fst (deploy ArgoCDCoreAddOn props0 1712345678901 cluster0)) = ''argocd-apply'' \<and>
           is_primary (fst (deploy ArgoCDCoreAddOn props0 1712345678901 cluster0))"
    by (simp add: primary_id_def)
  from deploy_returns[of ArgoRolloutsAddOn props_no_cleanup 1712345678901 cluster0] e(2)
  have 2: "cid (fst (deploy ArgoRolloutsAddOn props_no_cleanup 1712345678901 cluster0)) = ''argo-rollouts'' \<and>
           is_primary (fst (deploy ArgoRolloutsAddOn props_no_cleanup 1712345678901 cluster0))"
    by (simp add: primary_id_def)
  from deploy_returns[of ArgoRolloutsAddOn props0 1712345678901 cluster0] e(1)
  have 3: "cid (fst (deploy ArgoRolloutsAddOn props0 1712345678901 cluster0)) = ''argo-rollouts-cleanup-cr'' \<and>
           kind (fst (deploy ArgoRolloutsAddOn props0 1712345678901 cluster0)) = ''CustomResource''"
    by (simp add: registration_id_def)
  from 1 2 3 show ?thesis by blast
qed

text \<open>
  Claim C7, as stated, does not hold: the nonce is the reading of the wall clock and
  nothing else, so two distinct registrations of the same add-on made at the same clock
  reading carry the same nonce.
\<close>

theorem same_clock_same_nonce:
  "fst (deploy ArgoCDAddOn props0 1712345678901 cluster0) \<noteq>
   fst (deploy ArgoCDAddOn props_gitops 1712345678901 cluster0) \<and>
   nonce (snd (deploy ArgoCDAddOn props0 1712345678901 cluster0)) = Some ''1712345678901'' \<and>
   nonce (snd (deploy ArgoCDAddOn props_gitops 1712345678901 cluster0)) = Some ''1712345678901''"
  by (simp add: nonce_def deploy_def deploy_defs props0_def props_gitops_def cluster0_def
        to_string.simps digits_def)

text \<open>
  Claim C7, amended. The registration's \<open>timestamp\<close> property is the decimal text of the
  clock reading (\<open>Date.now()\<close>, milliseconds) taken when \<open>deploy\<close> runs. The nonces of two
  registrations of the same add-on differ exactly when their clock readings differ,
  whatever the other properties and the cluster are; in particular they differ when
  the later registration is made at a later clock reading.
\<close>

theorem nonce_differs_iff_clock_differs:
  assumes "cleanupEnabled props1" and "cleanupEnabled props2"
  shows "nonce (snd (deploy a props1 now1 c1)) = Some (to_string now1) \<and>
         nonce (snd (deploy a props2 now2 c2)) = Some (to_string now2) \<and>
         (nonce (snd (deploy a props1 now1 c1)) \<noteq> nonce (snd (deploy a props2 now2 c2))
            \<longleftrightarrow> now1 \<noteq> now2) \<and>
         (now1 < now2 \<longrightarrow>
            nonce (snd (deploy a props1 now1 c1)) \<noteq> nonce (snd (deploy a props2 now2 c2)))"
proof -
  have "to_string now1 = to_string now2 \<longleftrightarrow> now1 = now2" using to_string_inj by blast
  then show ?thesis
    by (auto simp: deploy_nonce[OF assms(1)] deploy_nonce[OF assms(2)])
qed

text \<open>
  The witness for C7: two deployments of \<open>ArgoCDAddOn\<close> one millisecond apart carry
  different nonces; two deployments with different properties at the same clock
  reading carry the same one.
\<close>

theorem nonce_differs_iff_clock_differs_witness:
  "nonce (snd (deploy ArgoCDAddOn props0 1712345678901 cluster0)) = Some ''1712345678901'' \<and>
   nonce (snd (deploy ArgoCDAddOn props0 1712345678902 cluster0)) = Some ''1712345678902'' \<and>
   nonce (snd (deploy ArgoCDAddOn props0 1712345678901 cluster0)) \<noteq>
   nonce (snd (deploy ArgoCDAddOn props0 1712345678902 cluster0)) \<and>
   nonce (snd (deploy ArgoCDAddOn props0 1712345678901 cluster0)) =
   nonce (snd (deploy ArgoCDAddOn props_gitops 1712345678901 cluster0))"
proof -
  have e: "cleanupEnabled props0" "cleanupEnabled props_gitops"
    by (simp_all add: cleanupEnabled_def props0_def props_gitops_def)
  have s: "to_string 1712345678901 = ''1712345678901''" "to_string 1712345678902 = ''1712345678902''"
    by (simp_all add: to_string.simps digits_def)
  from nonce_differs_iff_clock_differs[OF e(1) e(1), of ArgoCDAddOn 1712345678901 cluster0 1712345678902 cluster0]
       nonce_differs_iff_clock_differs[OF e(1) e(2), of ArgoCDAddOn 1712345678901 cluster0 1712345678901 cluster0]
  show ?thesis by (simp add: s)
qed

text \<open>
  Claim C8. With cleanup enabled, the cleanup custom resource (the last construct
  \<open>deploy\<close> declares) depends on the add-on's primary resource (the install job, the
  chart). Hence in every creation sequence that honours the declared dependencies the
  primary resource is created before the registration, and in every deletion sequence
  that honours them the registration is deleted, which is when its handler runs the
  \<open>Delete\<close> path, before the primary resource is.
\<close>

theorem registration_after_primary:
  assumes "cleanupEnabled props"
  shows "(registration_id a, primary_id a) \<in> set (dependencies (snd (deploy a props now c))) \<and>
         last (declared c (snd (deploy a props now c))) = (registration_id a, ''CustomResource'') \<and>
         (primary_id a, if a = ArgoCDCoreAddOn then ''Job'' else ''HelmChart'')
           \<in> set (declared c (snd (deploy a props now c))) \<and>
         (\<forall>seq. creation_order (dependencies (snd (deploy a props now c))) seq \<and>
                registration_id a \<in> set seq \<longrightarrow>
                precedes seq (primary_id a) (registration_id a)) \<and>
         (\<forall>seq. deletion_order (dependencies (snd (deploy a props now c))) seq \<and>
                primary_id a \<in> set seq \<longrightarrow>
                precedes seq (registration_id a) (primary_id a))"
proof -
  have edge: "(registration_id a, primary_id a) \<in> set (dependencies (snd (deploy a props now c)))"
    using assms by (simp add: deploy_dependencies)
  have decl: "last (declared c (snd (deploy a props now c))) = (registration_id a, ''CustomResource'') \<and>
         (primary_id a, if a = ArgoCDCoreAddOn then ''Job'' else ''HelmChart'')
           \<in> set (declared c (snd (deploy a props now c)))"
    using assms by (cases a) (simp_all add: deploy_declared primary_id_def)
  from edge decl show ?thesis
    by (auto dest: creation_orderD deletion_orderD)
qed

text \<open>
  The witness for C8: \<open>ArgoCDAddOn\<close> with its default properties, a creation sequence,
  and its reverse as the deletion sequence.
\<close>

theorem registration_after_primary_witness:
  "cleanupEnabled props0 \<and>
   creation_order (dependencies (snd (deploy ArgoCDAddOn props0 1712345678901 cluster0))) seq_argocd \<and>
   deletion_order (dependencies (snd (deploy ArgoCDAddOn props0 1712345678901 cluster0))) (rev seq_argocd) \<and>
   precedes seq_argocd ''argocd'' ''argocd-cleanup-cr'' \<and>
   precedes (rev seq_argocd) ''argocd-cleanup-cr'' ''argocd''"
proof -
  have e: "cleanupEnabled props0" by (simp add: cleanupEnabled_def props0_def)
  have d: "dependencies (snd (deploy ArgoCDAddOn props0 1712345678901 cluster0)) =
      [(''argocd'', ''argocd-namespace''), (''argocd-cleanup-cr'', ''argocd'')]"
    by (simp add: deploy_dependencies cluster0_def props0_def cleanupEnabled_def createNamespace_def
          registration_id_def primary_id_def namespace_id_def)
  have o: "creation_order (dependencies (snd (deploy ArgoCDAddOn props0 1712345678901 cluster0))) seq_argocd"
    unfolding d by (simp add: creation_order_def precedes_def seq_argocd_def)
  have o': "deletion_order (dependencies (snd (deploy ArgoCDAddOn props0 1712345678901 cluster0))) (rev seq_argocd)"
    unfolding d by (simp add: deletion_order_def precedes_def seq_argocd_def)
  have m: "registration_id ArgoCDAddOn \<in> set seq_argocd" "primary_id ArgoCDAddOn \<in> set (rev seq_argocd)"
    by (simp_all add: registration_id_def primary_id_def seq_argocd_def)
  from registration_after_primary[OF e, of ArgoCDAddOn 1712345678901 cluster0] o o' m e
  show ?thesis by (auto simp: registration_id_def primary_id_def)
qed

end
